theory Spec2Isabelle
  imports Main "HOL-Library.Char_ord" "HOL-Library.List_Lexorder"
begin

section \<open>Library manager: the store and the form that feeds it\<close>

text \<open>
  The program is one Python file, \<^verbatim>\<open>Simple_app.py\<close>: a class \<^verbatim>\<open>LibraryDB\<close> that runs
  SQL statements on an SQLite file, and a Tk window \<^verbatim>\<open>LibraryApp\<close> whose buttons call it.
  The model gives each SQL statement its relational meaning on tables held as lists of
  rows in rowid order, and each method of the window a function on a record of the
  window's state.

  Scope of the model.
  \<^item> Text is \<^typ>\<open>string\<close>, a list of 8-bit characters. Python's \<^verbatim>\<open>str.lower\<close>,
    \<^verbatim>\<open>str.strip\<close> and \<^verbatim>\<open>int\<close> are modelled on ASCII text; SQLite's \<^verbatim>\<open>lower\<close> and
    \<^verbatim>\<open>LIKE\<close> fold the 26 ASCII letters only, which is what the model does.
  \<^item> Integers are \<^typ>\<open>int\<close>, as in Python. SQLite stores signed 64-bit integers: the
    driver raises \<^verbatim>\<open>OverflowError\<close> when it is to bind a Python integer outside that
    range, and \<^verbatim>\<open>SUM\<close> fails with \<^verbatim>\<open>integer overflow\<close> when a running sum leaves it;
    both are branches of the model. Faults of the file itself (a file that cannot be
    opened, a full disk or an exhausted rowid space, which SQLite reports alike) are
    not part of the model.
  \<^item> \<^verbatim>\<open>CURRENT_TIMESTAMP\<close> is an input of \<^verbatim>\<open>add_book\<close>: the text
    \<^verbatim>\<open>YYYY-MM-DD HH:MM:SS\<close> the engine would read from the clock.
\<close>

subsection \<open>Text: case folding, trimming, integers\<close>

text \<open>The ASCII lower-case letter of an upper-case one; every other character is kept.\<close>

definition ascii_lower :: "char \<Rightarrow> char" where
  "ascii_lower c =
     (case map_of (zip ''ABCDEFGHIJKLMNOPQRSTUVWXYZ'' ''abcdefghijklmnopqrstuvwxyz'') c of
        Some l \<Rightarrow> l
      | None \<Rightarrow> c)"

text \<open>\<^verbatim>\<open>search.lower()\<close> in Python, on ASCII text.\<close>

definition py_lower :: "string \<Rightarrow> string" where
  "py_lower s = map ascii_lower s"

text \<open>
  \<^verbatim>\<open>str.isspace\<close> on ASCII: tab, line feed, vertical tab, form feed, carriage return,
  the four separators 0x1C to 0x1F, and the space.
\<close>

definition py_isspace :: "char \<Rightarrow> bool" where
  "py_isspace c \<longleftrightarrow>
     c \<in> set [CHR 0x09, CHR 0x0A, CHR 0x0B, CHR 0x0C, CHR 0x0D,
                CHR 0x1C, CHR 0x1D, CHR 0x1E, CHR 0x1F, CHR 0x20]"

text \<open>\<^verbatim>\<open>s.strip()\<close>: white space removed at both ends.\<close>

definition py_strip :: "string \<Rightarrow> string" where
  "py_strip s = rev (dropWhile py_isspace (rev (dropWhile py_isspace s)))"

definition is_digit :: "char \<Rightarrow> bool" where
  "is_digit c \<longleftrightarrow> c \<in> set ''0123456789''"

definition digit_val :: "char \<Rightarrow> nat" where
  "digit_val c = (case map_of (zip ''0123456789'' [0 ..< 10]) c of Some d \<Rightarrow> d | None \<Rightarrow> 0)"

text \<open>
  The digits of a decimal literal after its first digit: Python allows one underscore
  between two digits.
\<close>

fun int_digits :: "nat \<Rightarrow> string \<Rightarrow> nat option" where
  "int_digits acc [] = Some acc"
| "int_digits acc [c] = (if is_digit c then Some (acc * 10 + digit_val c) else None)"
| "int_digits acc (c # d # cs) =
     (if is_digit c then int_digits (acc * 10 + digit_val c) (d # cs)
      else if c = CHR ''_'' \<and> is_digit d then int_digits (acc * 10 + digit_val d) cs
      else None)"

definition int_unsigned :: "string \<Rightarrow> nat option" where
  "int_unsigned s =
     (case s of
        [] \<Rightarrow> None
      | c # cs \<Rightarrow> if is_digit c then int_digits (digit_val c) cs else None)"

text \<open>
  \<^verbatim>\<open>int(s)\<close> for a string: white space trimmed, an optional sign, a decimal literal.
  \<open>None\<close> is Python's \<^verbatim>\<open>ValueError\<close>.
\<close>

definition py_int :: "string \<Rightarrow> int option" where
  "py_int s =
     (case py_strip s of
        [] \<Rightarrow> None
      | c # cs \<Rightarrow>
          if c = CHR ''-'' then map_option (\<lambda>n. - int n) (int_unsigned cs)
          else if c = CHR ''+'' then map_option int (int_unsigned cs)
          else map_option int (int_unsigned (c # cs)))"

text \<open>\<^verbatim>\<open>str(n)\<close> for an integer: its decimal digits, with a minus sign below zero.\<close>

fun str_nat :: "nat \<Rightarrow> string" where
  "str_nat n =
     (if n < 10 then [''0123456789'' ! n]
      else str_nat (n div 10) @ [''0123456789'' ! (n mod 10)])"

definition str_int :: "int \<Rightarrow> string" where
  "str_int i = (if i < 0 then CHR ''-'' # str_nat (nat (- i)) else str_nat (nat i))"

subsection \<open>SQL values and the operators the statements use\<close>

text \<open>
  A nullable column is an \<open>option\<close>; the truth value of a condition is a
  \<^typ>\<open>bool option\<close>, \<open>None\<close> being SQL's unknown. A \<^verbatim>\<open>WHERE\<close> clause keeps the rows
  whose condition is true.
\<close>

definition sql_lower :: "string option \<Rightarrow> string option" where
  "sql_lower v = map_option (map ascii_lower) v"

text \<open>
  SQLite's \<^verbatim>\<open>LIKE\<close> with its defaults: \<^verbatim>\<open>%\<close> matches any run of characters, \<^verbatim>\<open>_\<close>
  exactly one, every other character of the pattern matches itself, ASCII letters
  without regard to case. There is no escape character unless the statement names one.
  The pattern is the first argument, the text the second.
\<close>

fun like_match :: "string \<Rightarrow> string \<Rightarrow> bool" where
  "like_match [] [] = True"
| "like_match [] (c # cs) = False"
| "like_match (p # ps) [] = (p = CHR ''%'' \<and> like_match ps [])"
| "like_match (p # ps) (c # cs) =
     (if p = CHR ''%'' then like_match ps (c # cs) \<or> like_match (p # ps) cs
      else (p = CHR ''_'' \<or> ascii_lower p = ascii_lower c) \<and> like_match ps cs)"

text \<open>\<^verbatim>\<open>x LIKE pattern\<close>; unknown when \<open>x\<close> is \<^verbatim>\<open>NULL\<close>.\<close>

definition sql_like :: "string option \<Rightarrow> string \<Rightarrow> bool option" where
  "sql_like x pattern = map_option (like_match pattern) x"

fun sql_or :: "bool option \<Rightarrow> bool option \<Rightarrow> bool option" where
  "sql_or (Some True) _ = Some True"
| "sql_or _ (Some True) = Some True"
| "sql_or (Some False) (Some False) = Some False"
| "sql_or _ _ = None"

definition sql_true :: "bool option \<Rightarrow> bool" where
  "sql_true v \<longleftrightarrow> v = Some True"

text \<open>
  The exceptions the store raises: \<^verbatim>\<open>OverflowError\<close> (\<^verbatim>\<open>Python int too large to
  convert to SQLite INTEGER\<close>) from the driver, and \<^verbatim>\<open>sqlite3.OperationalError\<close>
  (\<^verbatim>\<open>integer overflow\<close>) from the engine.
\<close>

datatype py_error = OverflowError | OperationalError

text \<open>An integer SQLite can hold: 64 bits, signed.\<close>

definition sqlite_int :: "int \<Rightarrow> bool" where
  "sqlite_int x \<longleftrightarrow> - 9223372036854775808 \<le> x \<and> x \<le> 9223372036854775807"

text \<open>
  The running sum of \<^verbatim>\<open>SUM\<close> over the rows in the order of the scan: \<open>None\<close> once
  a partial sum has left the 64-bit range.
\<close>

fun checked_sum :: "int \<Rightarrow> int list \<Rightarrow> int option" where
  "checked_sum acc [] = Some acc"
| "checked_sum acc (x # xs) =
     (if sqlite_int (acc + x) then checked_sum (acc + x) xs else None)"

text \<open>
  \<^verbatim>\<open>SUM(col)\<close> over integers: \<^verbatim>\<open>NULL\<close> when there is no row, the error
  \<^verbatim>\<open>integer overflow\<close> when a partial sum overflows. \<^verbatim>\<open>x or 0\<close> in Python then turns
  \<^verbatim>\<open>None\<close> (and zero) into zero.
\<close>

definition sql_sum :: "int list \<Rightarrow> py_error + int option" where
  "sql_sum xs =
     (if xs = [] then Inr None
      else (case checked_sum 0 xs of
              None \<Rightarrow> Inl OperationalError
            | Some s \<Rightarrow> Inr (Some s)))"

definition or_0 :: "int option \<Rightarrow> int" where
  "or_0 v = (case v of None \<Rightarrow> 0 | Some x \<Rightarrow> if x \<noteq> 0 then x else 0)"

subsection \<open>The tables\<close>

text \<open>
  The payload is the dictionary the form hands to \<^verbatim>\<open>add_book\<close> and \<^verbatim>\<open>update_book\<close>:
  its six keys are the six columns the statements bind by name. A row of \<^verbatim>\<open>books\<close>
  has these columns, its \<^verbatim>\<open>id\<close> and \<^verbatim>\<open>created_at\<close>.
\<close>

record payload =
  title :: string
  author :: string
  category :: "string option"
  year :: "int option"
  copies :: int
  available :: int

record book = payload +
  book_id :: int
  created_at :: string

record user =
  user_id :: int
  username :: string
  password_hash :: string

text \<open>
  The database file: both tables in rowid order, and for each the largest rowid it
  ever held (SQLite's \<^verbatim>\<open>sqlite_sequence\<close>, which \<^verbatim>\<open>AUTOINCREMENT\<close> keeps).
\<close>

record library_db =
  users :: "user list"
  users_seq :: int
  books :: "book list"
  books_seq :: int

definition empty_db :: library_db where
  "empty_db = \<lparr>users = [], users_seq = 0, books = [], books_seq = 0\<rparr>"

text \<open>
  The rowid \<^verbatim>\<open>AUTOINCREMENT\<close> gives a new row: one more than the largest the table
  holds or ever held.
\<close>

definition next_rowid :: "int list \<Rightarrow> int \<Rightarrow> int" where
  "next_rowid ids seq = foldr max ids seq + 1"

subsection \<open>LibraryDB\<close>

text \<open>
  \<^verbatim>\<open>hash_password\<close> is the hexadecimal SHA-256 digest of the UTF-8 bytes. The digest is
  the library's; the model takes it as the parameter \<open>sha256_hex\<close>.
\<close>

definition hash_password :: "(string \<Rightarrow> string) \<Rightarrow> string \<Rightarrow> string" where
  "hash_password sha256_hex raw = sha256_hex raw"

text \<open>\<^verbatim>\<open>SELECT 1 FROM users WHERE username=?\<close>, then \<^verbatim>\<open>fetchone() is not None\<close>.\<close>

definition user_exists :: "library_db \<Rightarrow> string \<Rightarrow> bool" where
  "user_exists d name \<longleftrightarrow> filter (\<lambda>u. username u = name) (users d) \<noteq> []"

text \<open>
  \<^verbatim>\<open>_ensure_db\<close>: the tables exist from here on (the model's tables always do), and the
  account \<^verbatim>\<open>admin\<close> with password \<^verbatim>\<open>admin\<close> is inserted unless a user of that name exists.
\<close>

definition ensure_db :: "(string \<Rightarrow> string) \<Rightarrow> library_db \<Rightarrow> library_db" where
  "ensure_db sha256_hex d =
     (if \<not> user_exists d ''admin'' then
        (let i = next_rowid (map user_id (users d)) (users_seq d) in
         d\<lparr>users := users d @
              [\<lparr>user_id = i, username = ''admin'',
                password_hash = hash_password sha256_hex ''admin''\<rparr>],
           users_seq := i\<rparr>)
      else d)"

text \<open>
  \<^verbatim>\<open>verify_user\<close>: \<^verbatim>\<open>SELECT password_hash FROM users WHERE username=?\<close>, the first row
  of the result, \<^verbatim>\<open>False\<close> when there is none, else the comparison with the digest.
\<close>

definition verify_user :: "(string \<Rightarrow> string) \<Rightarrow> library_db \<Rightarrow> string \<Rightarrow> string \<Rightarrow> bool" where
  "verify_user sha256_hex d name password =
     (case map password_hash (filter (\<lambda>u. username u = name) (users d)) of
        [] \<Rightarrow> False
      | h # _ \<Rightarrow> h = hash_password sha256_hex password)"

text \<open>
  Binding the payload to the named parameters of a statement: the driver converts
  every value before the statement runs, and raises \<^verbatim>\<open>OverflowError\<close> for an integer
  outside the 64-bit range. \<^verbatim>\<open>None\<close> binds as \<^verbatim>\<open>NULL\<close>.
\<close>

definition binds :: "payload \<Rightarrow> bool" where
  "binds p \<longleftrightarrow>
     (case year p of None \<Rightarrow> True | Some y \<Rightarrow> sqlite_int y)
     \<and> sqlite_int (copies p) \<and> sqlite_int (available p)"

text \<open>
  What a method of \<^verbatim>\<open>LibraryDB\<close> that writes returns: the exception it raised, the
  database file then being as it was, or the database after the statement.
\<close>

definition db_after :: "library_db \<Rightarrow> py_error + library_db \<Rightarrow> library_db" where
  "db_after d r = (case r of Inl e \<Rightarrow> d | Inr d' \<Rightarrow> d')"

text \<open>
  \<^verbatim>\<open>add_book\<close>: \<^verbatim>\<open>INSERT INTO books (title, author, category, year, copies, available)\<close>
  with the payload's values; \<^verbatim>\<open>id\<close> and \<^verbatim>\<open>created_at\<close> take their defaults, the next
  rowid and the current time \<open>now\<close>.
\<close>

definition add_book :: "string \<Rightarrow> payload \<Rightarrow> library_db \<Rightarrow> py_error + library_db" where
  "add_book now p d =
     (if \<not> binds p then Inl OverflowError
      else
        (let i = next_rowid (map book_id (books d)) (books_seq d) in
         Inr (d\<lparr>books := books d @
                [\<lparr>title = title p, author = author p, category = category p, year = year p,
                  copies = copies p, available = available p, book_id = i,
                  created_at = now\<rparr>],
               books_seq := i\<rparr>)))"

text \<open>
  \<^verbatim>\<open>update_book\<close>: \<^verbatim>\<open>UPDATE books SET\<close> the six columns \<^verbatim>\<open>WHERE id=:id\<close>. The method also
  stores \<^verbatim>\<open>book_id\<close> under the key \<^verbatim>\<open>id\<close> of the caller's dictionary; the six keys the
  statement reads are untouched by that.
\<close>

definition update_book :: "int \<Rightarrow> payload \<Rightarrow> library_db \<Rightarrow> py_error + library_db" where
  "update_book i p d =
     (if \<not> (binds p \<and> sqlite_int i) then Inl OverflowError
      else
        Inr (d\<lparr>books :=
               map (\<lambda>b. if book_id b = i
                         then b\<lparr>title := title p, author := author p,
                                category := category p, year := year p,
                                copies := copies p, available := available p\<rparr>
                         else b)
                   (books d)\<rparr>))"

text \<open>\<^verbatim>\<open>delete_book\<close>: \<^verbatim>\<open>DELETE FROM books WHERE id=?\<close>.\<close>

definition delete_book :: "int \<Rightarrow> library_db \<Rightarrow> py_error + library_db" where
  "delete_book i d =
     (if \<not> sqlite_int i then Inl OverflowError
      else Inr (d\<lparr>books := filter (\<lambda>b. book_id b \<noteq> i) (books d)\<rparr>))"

text \<open>
  \<^verbatim>\<open>ORDER BY created_at DESC\<close>: an insertion sort on the text of the column, later
  times first. SQLite leaves the order of rows with equal keys open; the model keeps
  them in table order.
\<close>

fun insert_desc :: "book \<Rightarrow> book list \<Rightarrow> book list" where
  "insert_desc x [] = [x]"
| "insert_desc x (y # ys) =
     (if created_at y \<le> created_at x then x # y # ys else y # insert_desc x ys)"

definition order_by_created_at_desc :: "book list \<Rightarrow> book list" where
  "order_by_created_at_desc rows = foldr insert_desc rows []"

text \<open>
  The \<^verbatim>\<open>WHERE\<close> clause of the search:
  \<^verbatim>\<open>lower(title) LIKE ? OR lower(author) LIKE ? OR lower(category) LIKE ?\<close>,
  the three parameters being the same pattern.
\<close>

definition search_where :: "string \<Rightarrow> book \<Rightarrow> bool option" where
  "search_where like b =
     sql_or (sql_or (sql_like (sql_lower (Some (title b))) like)
                    (sql_like (sql_lower (Some (author b))) like))
            (sql_like (sql_lower (category b)) like)"

text \<open>
  \<^verbatim>\<open>fetch_books\<close>: with a non-empty search term, the rows matching the pattern
  \<^verbatim>\<open>f"%{search.lower()}%"\<close>; with the empty term, every row; newest first either way.
\<close>

definition fetch_books :: "string \<Rightarrow> library_db \<Rightarrow> book list" where
  "fetch_books search d =
     (if search \<noteq> [] then
        (let like = ''%'' @ py_lower search @ ''%'' in
         order_by_created_at_desc (filter (\<lambda>b. sql_true (search_where like b)) (books d)))
      else order_by_created_at_desc (books d))"

text \<open>
  \<^verbatim>\<open>summary\<close>: \<^verbatim>\<open>SELECT COUNT(*), SUM(available), SUM(copies) FROM books\<close> and
  \<^verbatim>\<open>SELECT COUNT(*) FROM books WHERE available=0\<close>, each value passed through \<^verbatim>\<open>or 0\<close>.
  The first statement fails as a whole when one of its sums overflows, and the method
  raises.
\<close>

record summary_stats =
  total :: int
  sum_available :: int
  sum_copies :: int
  issued :: int

definition summary :: "library_db \<Rightarrow> py_error + summary_stats" where
  "summary d =
     (case sql_sum (map available (books d)) of
        Inl e \<Rightarrow> Inl e
      | Inr available_sum \<Rightarrow>
          (case sql_sum (map copies (books d)) of
             Inl e \<Rightarrow> Inl e
           | Inr copies_sum \<Rightarrow>
               Inr \<lparr>total = or_0 (Some (int (length (books d)))),
                    sum_available = or_0 available_sum,
                    sum_copies = or_0 copies_sum,
                    issued = or_0 (Some (int (length
                               (filter (\<lambda>b. available b = 0) (books d)))))\<rparr>))"

subsection \<open>The window's state\<close>

text \<open>
  The six entry fields of the form, under the labels the source keys them by; each holds
  the text the user typed.
\<close>

record form =
  Title :: string
  Author :: string
  Category :: string
  Year :: string
  Copies :: string
  Available :: string

text \<open>A message box: its kind, its title and its message.\<close>

datatype dialog =
    ShowWarning string string
  | ShowError string string
  | ShowInfo string string
  | AskYesNo string string

text \<open>
  A path as \<^verbatim>\<open>pathlib\<close> splits it: the parent directory, written with its trailing
  separator, and the final component.
\<close>

record path =
  parent_dir :: string
  file_name :: string

definition str_path :: "path \<Rightarrow> string" where
  "str_path p = parent_dir p @ file_name p"

definition with_name :: "path \<Rightarrow> string \<Rightarrow> path" where
  "with_name p n = p\<lparr>file_name := n\<rparr>"

text \<open>
  \<^verbatim>\<open>PurePath.suffix\<close>: the final component from its last dot on, when that dot is
  neither its first nor its last character.
\<close>

definition suffix_of :: "string \<Rightarrow> string" where
  "suffix_of n =
     (let r = takeWhile (\<lambda>c. c \<noteq> CHR ''.'') (rev n) in
      if CHR ''.'' \<in> set n \<and> r \<noteq> [] \<and> length r + 1 < length n
      then CHR ''.'' # rev r else [])"

text \<open>
  \<^verbatim>\<open>PurePath.with_suffix\<close>, for a path with a name and a suffix that starts with a dot
  (\<^verbatim>\<open>pathlib\<close> raises \<^verbatim>\<open>ValueError\<close> otherwise; the program calls it on
  \<^verbatim>\<open>library.db\<close> with \<^verbatim>\<open>.csv\<close> only).
\<close>

definition with_suffix :: "path \<Rightarrow> string \<Rightarrow> path" where
  "with_suffix p s =
     p\<lparr>file_name :=
         take (length (file_name p) - length (suffix_of (file_name p))) (file_name p) @ s\<rparr>"

text \<open>\<^verbatim>\<open>DB_PATH = Path(__file__).with_name("library.db")\<close>.\<close>

definition DB_PATH :: "path \<Rightarrow> path" where
  "DB_PATH script = with_name script ''library.db''"

text \<open>
  The state of the logged-in window: the database behind \<^verbatim>\<open>self.db\<close>, the path of the
  script (\<^verbatim>\<open>__file__\<close>), the form, the attribute \<^verbatim>\<open>selected_id\<close> (\<open>None\<close> when the
  object has no such attribute), the search box, the rows of the table view, the three
  statistics labels, the text files written so far, the message boxes shown so far,
  and the exceptions that left a button's command and were reported by Tk.
\<close>

record app =
  db :: library_db
  script_file :: path
  form_vars :: form
  selected_id :: "int option"
  search_var :: string
  tree :: "book list"
  stat_total :: string
  stat_available :: string
  stat_issued :: string
  files :: "path \<Rightarrow> string option"
  dialogs :: "dialog list"
  uncaught :: "py_error list"

subsection \<open>CSV output\<close>

text \<open>A value of a result row as Python receives it: \<^verbatim>\<open>None\<close>, an integer or a string.\<close>

datatype pyval = PyNone | PyInt int | PyStr string

text \<open>
  The tuple of one row of \<^verbatim>\<open>fetch_books\<close>, in the order of its \<^verbatim>\<open>SELECT\<close>:
  id, title, author, category, year, copies, available, created_at.
\<close>

definition row_tuple :: "book \<Rightarrow> pyval list" where
  "row_tuple b =
     [PyInt (book_id b), PyStr (title b), PyStr (author b),
      (case category b of None \<Rightarrow> PyNone | Some c \<Rightarrow> PyStr c),
      (case year b of None \<Rightarrow> PyNone | Some y \<Rightarrow> PyInt y),
      PyInt (copies b), PyInt (available b), PyStr (created_at b)]"

text \<open>
  \<^verbatim>\<open>csv.writer\<close> with its default dialect: \<^verbatim>\<open>None\<close> is written as the empty field,
  any other value as its \<^verbatim>\<open>str\<close>; a field holding a comma, a double quote, a carriage
  return or a line feed is put in double quotes with its quotes doubled; fields are
  joined by commas and the record ends with carriage return and line feed. A record
  of one empty field is written as two double quotes.
\<close>

definition csv_field :: "pyval \<Rightarrow> string" where
  "csv_field v = (case v of PyNone \<Rightarrow> [] | PyInt i \<Rightarrow> str_int i | PyStr s \<Rightarrow> s)"

definition csv_quote :: "string \<Rightarrow> string" where
  "csv_quote s =
     (if list_ex (\<lambda>c. c \<in> set [CHR '','', CHR 0x22, CHR 0x0D, CHR 0x0A]) s
      then CHR 0x22 # concat (map (\<lambda>c. if c = CHR 0x22 then [c, c] else [c]) s) @ [CHR 0x22]
      else s)"

fun join_comma :: "string list \<Rightarrow> string" where
  "join_comma [] = []"
| "join_comma [x] = x"
| "join_comma (x # y # ys) = x @ CHR '','' # join_comma (y # ys)"

definition writerow :: "pyval list \<Rightarrow> string" where
  "writerow cells =
     (let line = join_comma (map (\<lambda>v. csv_quote (csv_field v)) cells) in
      (if cells \<noteq> [] \<and> line = [] then [CHR 0x22, CHR 0x22] else line) @ [CHR 0x0D, CHR 0x0A])"

definition writerows :: "pyval list list \<Rightarrow> string" where
  "writerows rows = concat (map writerow rows)"

definition csv_header :: "pyval list" where
  "csv_header =
     map PyStr [''ID'', ''Title'', ''Author'', ''Category'', ''Year'', ''Copies'',
                ''Available'', ''Created'']"

subsection \<open>LibraryApp\<close>

text \<open>
  A method of the window returns, in the state \<open>Inr\<close> holds, or raises: \<open>Inl\<close> holds
  the exception and the state the window had reached when it was raised.

  \<^verbatim>\<open>update_stats\<close>: the three labels show the total, the sum of \<^verbatim>\<open>available\<close> and the
  number of issued titles of \<^verbatim>\<open>summary()\<close>; an exception of \<^verbatim>\<open>summary()\<close> is passed on.
\<close>

definition update_stats :: "app \<Rightarrow> py_error \<times> app + app" where
  "update_stats a =
     (case summary (db a) of
        Inl e \<Rightarrow> Inl (e, a)
      | Inr stats \<Rightarrow>
          Inr (a\<lparr>stat_total := ''Total books: '' @ str_int (total stats),
                stat_available := ''Available copies: '' @ str_int (sum_available stats),
                stat_issued := ''Issued titles: '' @ str_int (issued stats)\<rparr>))"

text \<open>
  \<^verbatim>\<open>refresh_table\<close>: the table view is emptied and filled with the rows
  \<^verbatim>\<open>fetch_books\<close> returns for the trimmed text of the search box; then
  \<^verbatim>\<open>update_stats\<close>.
\<close>

definition refresh_table :: "app \<Rightarrow> py_error \<times> app + app" where
  "refresh_table a =
     update_stats (a\<lparr>tree := fetch_books (py_strip (search_var a)) (db a)\<rparr>)"

text \<open>
  Tk runs the command of a button; an exception that leaves the command is reported
  (\<^verbatim>\<open>report_callback_exception\<close>) and the window goes on in the state it had reached.
\<close>

definition callback :: "py_error \<times> app + app \<Rightarrow> app" where
  "callback r =
     (case r of
        Inl (e, a) \<Rightarrow> a\<lparr>uncaught := uncaught a @ [e]\<rparr>
      | Inr a \<Rightarrow> a)"

text \<open>
  \<^verbatim>\<open>_form_payload\<close>: the validated payload, or the message box shown instead of it
  (the method then returns \<^verbatim>\<open>None\<close>). A blank Copies or Available field reads as
  \<^verbatim>\<open>"0"\<close>; a blank Year is \<^verbatim>\<open>None\<close>. The three conversions stand in one \<^verbatim>\<open>try\<close>
  block, in the order year, copies, available; a \<^verbatim>\<open>ValueError\<close> of any of them
  ends in the same message.
\<close>

definition form_payload :: "form \<Rightarrow> dialog + payload" where
  "form_payload f =
     (let title' = py_strip (Title f);
          author' = py_strip (Author f);
          category' = py_strip (Category f);
          year' = py_strip (Year f);
          copies' = (if py_strip (Copies f) \<noteq> [] then py_strip (Copies f) else ''0'');
          available' = (if py_strip (Available f) \<noteq> [] then py_strip (Available f) else ''0'');
          invalid = Inl (ShowError ''Invalid number'' ''Year, Copies, Available must be numbers'')
      in
      if title' = [] \<or> author' = [] then
        Inl (ShowWarning ''Missing data'' ''Title and Author are required'')
      else
        (case (if year' \<noteq> [] then map_option Some (py_int year') else Some None) of
           None \<Rightarrow> invalid
         | Some year_val \<Rightarrow>
             (case py_int copies' of
                None \<Rightarrow> invalid
              | Some c \<Rightarrow>
                  (let copies_val = max 0 c in
                   case py_int available' of
                     None \<Rightarrow> invalid
                   | Some v \<Rightarrow>
                       (let available_val = max 0 (min v copies_val) in
                        Inr \<lparr>title = title', author = author', category = Some category',
                             year = year_val, copies = copies_val,
                             available = available_val\<rparr>)))))"

text \<open>
  \<^verbatim>\<open>clear_form\<close>: every field empty, Available back to \<^verbatim>\<open>"1"\<close>, and the attribute
  \<^verbatim>\<open>selected_id\<close> deleted.
\<close>

definition clear_form :: "app \<Rightarrow> app" where
  "clear_form a =
     a\<lparr>form_vars := \<lparr>Title = [], Author = [], Category = [], Year = [], Copies = [],
                      Available = ''1''\<rparr>,
       selected_id := None\<rparr>"

definition show_dialog :: "dialog \<Rightarrow> app \<Rightarrow> app" where
  "show_dialog m a = a\<lparr>dialogs := dialogs a @ [m]\<rparr>"

text \<open>
  \<^verbatim>\<open>LibraryApp.add_book\<close>, as the command of the Add button; \<open>now\<close> is the clock's
  text at the insert. A payload, once returned, is a dictionary of six keys, so the
  test \<^verbatim>\<open>if not payload\<close> only catches \<^verbatim>\<open>None\<close>. An exception of the store ends the
  method before the form is cleared; one of \<^verbatim>\<open>refresh_table\<close> ends it before the
  closing message.
\<close>

definition app_add_book :: "string \<Rightarrow> app \<Rightarrow> app" where
  "app_add_book now a =
     callback
       (case form_payload (form_vars a) of
          Inl m \<Rightarrow> Inr (show_dialog m a)
        | Inr p \<Rightarrow>
            (case add_book now p (db a) of
               Inl e \<Rightarrow> Inl (e, a)
             | Inr d \<Rightarrow>
                 (case refresh_table (clear_form (a\<lparr>db := d\<rparr>)) of
                    Inl x \<Rightarrow> Inl x
                  | Inr a' \<Rightarrow>
                      Inr (show_dialog (ShowInfo ''Added'' ''Book added successfully'') a'))))"

text \<open>\<^verbatim>\<open>update_selected\<close>, as the command of the Update button.\<close>

definition update_selected :: "app \<Rightarrow> app" where
  "update_selected a =
     callback
       (case selected_id a of
          None \<Rightarrow> Inr (show_dialog (ShowWarning ''Select a row'' ''Choose a book to update'') a)
        | Some i \<Rightarrow>
            (case form_payload (form_vars a) of
               Inl m \<Rightarrow> Inr (show_dialog m a)
             | Inr p \<Rightarrow>
                 (case update_book i p (db a) of
                    Inl e \<Rightarrow> Inl (e, a)
                  | Inr d \<Rightarrow>
                      (case refresh_table (a\<lparr>db := d\<rparr>) of
                         Inl x \<Rightarrow> Inl x
                       | Inr a' \<Rightarrow>
                           Inr (show_dialog (ShowInfo ''Updated'' ''Book updated'') a')))))"

text \<open>
  \<^verbatim>\<open>delete_selected\<close>, as the command of the Delete button; \<open>yes\<close> is the user's
  answer to the confirmation.
\<close>

definition delete_selected :: "bool \<Rightarrow> app \<Rightarrow> app" where
  "delete_selected yes a =
     callback
       (case selected_id a of
          None \<Rightarrow> Inr (show_dialog (ShowWarning ''Select a row'' ''Choose a book to delete'') a)
        | Some i \<Rightarrow>
            (let a' = show_dialog
                        (AskYesNo ''Confirm'' ''Delete this book? This cannot be undone.'') a
             in if \<not> yes then Inr a'
                else
                  (case delete_book i (db a') of
                     Inl e \<Rightarrow> Inl (e, a')
                   | Inr d \<Rightarrow> refresh_table (clear_form (a'\<lparr>db := d\<rparr>)))))"

text \<open>
  \<^verbatim>\<open>export_csv\<close>, the Export CSV button: the rows of the current search, written to
  the database's path with the suffix \<^verbatim>\<open>.csv\<close>, or a message when there is none.
\<close>

definition export_csv :: "app \<Rightarrow> app" where
  "export_csv a =
     (let rows = fetch_books (py_strip (search_var a)) (db a) in
      if rows = [] then show_dialog (ShowInfo ''No data'' ''No rows to export'') a
      else
        (let csv_path = with_suffix (DB_PATH (script_file a)) ''.csv'' in
         show_dialog (ShowInfo ''Exported'' (''Data exported to '' @ str_path csv_path))
           (a\<lparr>files := (files a)(csv_path \<mapsto> writerow csv_header @ writerows (map row_tuple rows))\<rparr>)))"

text \<open>
  The three buttons that change the store, with what the user and the clock supply
  to each.
\<close>

datatype mutation = Add string | Update | Delete bool

fun ui_mutation :: "mutation \<Rightarrow> app \<Rightarrow> app" where
  "ui_mutation (Add now) a = app_add_book now a"
| "ui_mutation Update a = update_selected a"
| "ui_mutation (Delete yes) a = delete_selected yes a"

section \<open>Properties\<close>

subsection \<open>The result order of a query\<close>

lemma set_insert_desc: "set (insert_desc x ys) = insert x (set ys)"
  by (induction ys) auto

lemma length_insert_desc: "length (insert_desc x ys) = Suc (length ys)"
  by (induction ys) auto

lemma sorted_insert_desc:
  "sorted_wrt (\<lambda>a b. created_at b \<le> created_at a) ys \<Longrightarrow>
   sorted_wrt (\<lambda>a b. created_at b \<le> created_at a) (insert_desc x ys)"
  by (induction ys) (auto simp: set_insert_desc)

lemma set_order_by: "set (order_by_created_at_desc rows) = set rows"
  unfolding order_by_created_at_desc_def by (induction rows) (simp_all add: set_insert_desc)

lemma length_order_by: "length (order_by_created_at_desc rows) = length rows"
  unfolding order_by_created_at_desc_def by (induction rows) (simp_all add: length_insert_desc)

lemma sorted_order_by:
  "sorted_wrt (\<lambda>a b. created_at b \<le> created_at a) (order_by_created_at_desc rows)"
  unfolding order_by_created_at_desc_def by (induction rows) (simp_all add: sorted_insert_desc)

subsection \<open>The store\<close>

lemma checked_sum_Some: "checked_sum acc xs = Some s \<Longrightarrow> s = acc + sum_list xs"
proof (induction xs arbitrary: acc)
  case Nil
  then show ?case by simp
next
  case (Cons x xs)
  from Cons.prems have "checked_sum (acc + x) xs = Some s"
    by (simp split: if_splits)
  from Cons.IH [OF this] show ?case by simp
qed

lemma checked_sum_iff:
  "checked_sum acc xs \<noteq> None \<longleftrightarrow>
     (\<forall>k. 1 \<le> k \<and> k \<le> length xs \<longrightarrow> sqlite_int (acc + sum_list (take k xs)))"
proof (induction xs arbitrary: acc)
  case Nil
  then show ?case by simp
next
  case (Cons x xs)
  have "(\<forall>k. 1 \<le> k \<and> k \<le> length (x # xs) \<longrightarrow> sqlite_int (acc + sum_list (take k (x # xs))))
      \<longleftrightarrow> (\<forall>j. j \<le> length xs \<longrightarrow> sqlite_int (acc + x + sum_list (take j xs)))"
  proof
    assume h: "\<forall>k. 1 \<le> k \<and> k \<le> length (x # xs) \<longrightarrow> sqlite_int (acc + sum_list (take k (x # xs)))"
    show "\<forall>j. j \<le> length xs \<longrightarrow> sqlite_int (acc + x + sum_list (take j xs))"
    proof (intro allI impI)
      fix j assume "j \<le> length xs"
      with h [rule_format, of "Suc j"] show "sqlite_int (acc + x + sum_list (take j xs))"
        by (simp add: add.assoc)
    qed
  next
    assume h: "\<forall>j. j \<le> length xs \<longrightarrow> sqlite_int (acc + x + sum_list (take j xs))"
    show "\<forall>k. 1 \<le> k \<and> k \<le> length (x # xs) \<longrightarrow> sqlite_int (acc + sum_list (take k (x # xs)))"
    proof (intro allI impI)
      fix k assume k: "1 \<le> k \<and> k \<le> length (x # xs)"
      then obtain j where j: "k = Suc j" by (cases k) auto
      with k h [rule_format, of j] show "sqlite_int (acc + sum_list (take k (x # xs)))"
        by (simp add: add.assoc)
    qed
  qed
  also have "\<dots> \<longleftrightarrow> sqlite_int (acc + x) \<and>
      (\<forall>j. 1 \<le> j \<and> j \<le> length xs \<longrightarrow> sqlite_int (acc + x + sum_list (take j xs)))"
  proof
    assume h: "\<forall>j. j \<le> length xs \<longrightarrow> sqlite_int (acc + x + sum_list (take j xs))"
    from h [rule_format, of 0] have "sqlite_int (acc + x)" by simp
    with h show "sqlite_int (acc + x) \<and>
      (\<forall>j. 1 \<le> j \<and> j \<le> length xs \<longrightarrow> sqlite_int (acc + x + sum_list (take j xs)))"
      by simp
  next
    assume h: "sqlite_int (acc + x) \<and>
      (\<forall>j. 1 \<le> j \<and> j \<le> length xs \<longrightarrow> sqlite_int (acc + x + sum_list (take j xs)))"
    show "\<forall>j. j \<le> length xs \<longrightarrow> sqlite_int (acc + x + sum_list (take j xs))"
    proof (intro allI impI)
      fix j assume "j \<le> length xs"
      with h show "sqlite_int (acc + x + sum_list (take j xs))"
        by (cases j) simp_all
    qed
  qed
  finally show ?case
    using Cons.IH [of "acc + x"] by simp
qed

lemma sqlite_int_0: "sqlite_int 0"
  by (simp add: sqlite_int_def)

lemma sql_sum_ok:
  assumes "\<forall>k \<le> length xs. sqlite_int (sum_list (take k xs))"
  shows "sql_sum xs = Inr (if xs = [] then None else Some (sum_list xs))"
proof (cases "checked_sum 0 xs")
  case None
  with checked_sum_iff [of 0 xs] assms show ?thesis by auto
next
  case (Some s)
  from checked_sum_Some [OF Some] Some show ?thesis
    by (simp add: sql_sum_def)
qed

lemma sql_sum_overflow:
  assumes "\<not> (\<forall>k \<le> length xs. sqlite_int (sum_list (take k xs)))"
  shows "sql_sum xs = Inl OperationalError"
proof -
  from assms obtain k where k: "k \<le> length xs" "\<not> sqlite_int (sum_list (take k xs))"
    by blast
  then have "1 \<le> k" using sqlite_int_0 by (cases k) auto
  with k checked_sum_iff [of 0 xs] have "checked_sum 0 xs = None" by auto
  moreover from k have "xs \<noteq> []" using sqlite_int_0 by auto
  ultimately show ?thesis by (simp add: sql_sum_def)
qed

lemma sql_sum_cases:
  "sql_sum xs = Inl OperationalError \<or> sql_sum xs = Inr (if xs = [] then None else Some (sum_list xs))"
  using sql_sum_ok [of xs] sql_sum_overflow [of xs] by blast

lemma or_0_sum: "or_0 (if xs = [] then None else Some (sum_list xs)) = sum_list xs"
  by (simp add: or_0_def)

lemma or_0_int: "or_0 (Some (int n)) = int n"
  by (simp add: or_0_def)

lemma summary_Inr:
  assumes "summary d = Inr s"
  shows "s = \<lparr>total = int (length (books d)),
      sum_available = (\<Sum>b\<leftarrow>books d. available b),
      sum_copies = (\<Sum>b\<leftarrow>books d. copies b),
      issued = int (length (filter (\<lambda>b. available b = 0) (books d)))\<rparr>"
proof -
  from assms obtain va vc where a: "sql_sum (map available (books d)) = Inr va"
    and c: "sql_sum (map copies (books d)) = Inr vc"
    and s: "s = \<lparr>total = or_0 (Some (int (length (books d)))), sum_available = or_0 va,
      sum_copies = or_0 vc,
      issued = or_0 (Some (int (length (filter (\<lambda>b. available b = 0) (books d)))))\<rparr>"
    by (auto simp: summary_def split: sum.splits)
  from a sql_sum_cases [of "map available (books d)"]
  have va: "or_0 va = (\<Sum>b\<leftarrow>books d. available b)"
    using or_0_sum [of "map available (books d)"] by auto
  from c sql_sum_cases [of "map copies (books d)"]
  have vc: "or_0 vc = (\<Sum>b\<leftarrow>books d. copies b)"
    using or_0_sum [of "map copies (books d)"] by auto
  show ?thesis
    by (simp only: s va vc or_0_int)
qed

lemma summary_Inl: "summary d = Inl e \<Longrightarrow> e = OperationalError"
  using sql_sum_cases [of "map available (books d)"] sql_sum_cases [of "map copies (books d)"]
  by (auto simp: summary_def split: sum.splits)

lemma take_map_sum: "sum_list (take k (map f xs)) = (\<Sum>b\<leftarrow>take k xs. f b)"
  by (simp add: take_map)

lemma summary_returns_iff:
  "(\<exists>s. summary d = Inr s) \<longleftrightarrow>
     (\<forall>k \<le> length (books d). sqlite_int (\<Sum>b\<leftarrow>take k (books d). available b)
          \<and> sqlite_int (\<Sum>b\<leftarrow>take k (books d). copies b))"
proof
  assume "\<exists>s. summary d = Inr s"
  then have a: "sql_sum (map available (books d)) \<noteq> Inl OperationalError"
    and c: "sql_sum (map copies (books d)) \<noteq> Inl OperationalError"
    by (auto simp: summary_def split: sum.splits)
  from a sql_sum_overflow [of "map available (books d)"]
  have "\<forall>k \<le> length (books d). sqlite_int (\<Sum>b\<leftarrow>take k (books d). available b)"
    by (auto simp: take_map)
  moreover from c sql_sum_overflow [of "map copies (books d)"]
  have "\<forall>k \<le> length (books d). sqlite_int (\<Sum>b\<leftarrow>take k (books d). copies b)"
    by (auto simp: take_map)
  ultimately show "\<forall>k \<le> length (books d). sqlite_int (\<Sum>b\<leftarrow>take k (books d). available b)
          \<and> sqlite_int (\<Sum>b\<leftarrow>take k (books d). copies b)"
    by blast
next
  assume h: "\<forall>k \<le> length (books d). sqlite_int (\<Sum>b\<leftarrow>take k (books d). available b)
          \<and> sqlite_int (\<Sum>b\<leftarrow>take k (books d). copies b)"
  then have "\<forall>k \<le> length (map available (books d)). sqlite_int (sum_list (take k (map available (books d))))"
    by (simp add: take_map)
  from sql_sum_ok [OF this] have a: "\<exists>v. sql_sum (map available (books d)) = Inr v" by blast
  from h have "\<forall>k \<le> length (map copies (books d)). sqlite_int (sum_list (take k (map copies (books d))))"
    by (simp add: take_map)
  from sql_sum_ok [OF this] have c: "\<exists>v. sql_sum (map copies (books d)) = Inr v" by blast
  from a c show "\<exists>s. summary d = Inr s"
    by (auto simp: summary_def)
qed

text \<open>
  C3. \<^verbatim>\<open>summary()\<close> in a store where the running sums of the columns \<^verbatim>\<open>available\<close> and
  \<^verbatim>\<open>copies\<close>, taken over the rows in table order, stay within the signed 64-bit range:
  it returns the number of rows of \<^verbatim>\<open>books\<close>, the sum of \<^verbatim>\<open>available\<close>, the sum of
  \<^verbatim>\<open>copies\<close> and the number of rows whose \<^verbatim>\<open>available\<close> is 0 (the sums are 0 on the
  empty table, where SQL's \<^verbatim>\<open>SUM\<close> is \<^verbatim>\<open>NULL\<close>). In every other store it raises
  \<^verbatim>\<open>OperationalError\<close>. After adding the book Dune by Herbert with 2 copies, 2 of them
  available, to the empty store, whatever its category and a year SQLite can hold,
  the summary is total 1, available 2, copies 2, issued 0.
\<close>

theorem summary_counts_and_sums:
  "((\<forall>k \<le> length (books d). sqlite_int (\<Sum>b\<leftarrow>take k (books d). available b)
          \<and> sqlite_int (\<Sum>b\<leftarrow>take k (books d). copies b)) \<longrightarrow>
      summary d =
        Inr \<lparr>total = int (length (books d)),
             sum_available = (\<Sum>b\<leftarrow>books d. available b),
             sum_copies = (\<Sum>b\<leftarrow>books d. copies b),
             issued = int (length (filter (\<lambda>b. available b = 0) (books d)))\<rparr>)
   \<and> (\<not> (\<forall>k \<le> length (books d). sqlite_int (\<Sum>b\<leftarrow>take k (books d). available b)
          \<and> sqlite_int (\<Sum>b\<leftarrow>take k (books d). copies b)) \<longrightarrow>
      summary d = Inl OperationalError)
   \<and> ((case y of None \<Rightarrow> True | Some v \<Rightarrow> sqlite_int v) \<longrightarrow>
      (\<exists>d'. add_book now \<lparr>title = ''Dune'', author = ''Herbert'', category = c, year = y,
                          copies = 2, available = 2\<rparr> empty_db = Inr d'
         \<and> summary d' = Inr \<lparr>total = 1, sum_available = 2, sum_copies = 2, issued = 0\<rparr>))"
proof (intro conjI impI)
  assume "\<forall>k \<le> length (books d). sqlite_int (\<Sum>b\<leftarrow>take k (books d). available b)
          \<and> sqlite_int (\<Sum>b\<leftarrow>take k (books d). copies b)"
  with summary_returns_iff [of d] obtain s where s: "summary d = Inr s" by blast
  from summary_Inr [OF s] s show "summary d =
        Inr \<lparr>total = int (length (books d)),
             sum_available = (\<Sum>b\<leftarrow>books d. available b),
             sum_copies = (\<Sum>b\<leftarrow>books d. copies b),
             issued = int (length (filter (\<lambda>b. available b = 0) (books d)))\<rparr>"
    by simp
next
  assume "\<not> (\<forall>k \<le> length (books d). sqlite_int (\<Sum>b\<leftarrow>take k (books d). available b)
          \<and> sqlite_int (\<Sum>b\<leftarrow>take k (books d). copies b))"
  with summary_returns_iff [of d] have "\<not> (\<exists>s. summary d = Inr s)" by blast
  then obtain e where e: "summary d = Inl e" by (cases "summary d") auto
  from summary_Inl [OF e] e show "summary d = Inl OperationalError" by simp
next
  assume y: "case y of None \<Rightarrow> True | Some v \<Rightarrow> sqlite_int v"
  have two: "sqlite_int 2" by (simp add: sqlite_int_def)
  from y two have b: "binds \<lparr>title = ''Dune'', author = ''Herbert'', category = c, year = y,
                          copies = 2, available = 2\<rparr>"
    by (simp add: binds_def)
  have s: "sql_sum [2] = Inr (Some 2)"
    by (simp add: sql_sum_def two)
  show "\<exists>d'. add_book now \<lparr>title = ''Dune'', author = ''Herbert'', category = c, year = y,
                          copies = 2, available = 2\<rparr> empty_db = Inr d'
         \<and> summary d' = Inr \<lparr>total = 1, sum_available = 2, sum_copies = 2, issued = 0\<rparr>"
    by (simp add: add_book_def b empty_db_def Let_def summary_def s or_0_def)
qed

lemma ex_overflow_sum:
  "sql_sum [4611686018427387904, 4611686018427387904] = Inl OperationalError"
  by (simp add: sql_sum_def sqlite_int_def)

lemma ex_big_binds: "sqlite_int 4611686018427387904"
  by (simp add: sqlite_int_def)

text \<open>An instance: two rows, one of them with no copy available.\<close>

theorem summary_counts_and_sums_witness:
  "sqlite_int 0 \<and> sqlite_int 1 \<and> sqlite_int 2 \<and> sqlite_int 5
   \<and> summary
        \<lparr>users = [], users_seq = 0,
         books = [\<lparr>title = ''Dune'', author = ''Herbert'', category = None, year = None,
                   copies = 2, available = 0, book_id = 1,
                   created_at = ''2024-01-01 10:00:00''\<rparr>,
                  \<lparr>title = ''Emma'', author = ''Austen'', category = None, year = None,
                   copies = 3, available = 1, book_id = 2,
                   created_at = ''2024-01-02 10:00:00''\<rparr>],
         books_seq = 2\<rparr>
      = Inr \<lparr>total = 2, sum_available = 1, sum_copies = 5, issued = 1\<rparr>"
proof -
  let ?d = "\<lparr>users = [], users_seq = 0,
         books = [\<lparr>title = ''Dune'', author = ''Herbert'', category = None, year = None,
                   copies = 2, available = 0, book_id = 1,
                   created_at = ''2024-01-01 10:00:00''\<rparr>,
                  \<lparr>title = ''Emma'', author = ''Austen'', category = None, year = None,
                   copies = 3, available = 1, book_id = 2,
                   created_at = ''2024-01-02 10:00:00''\<rparr>],
         books_seq = 2\<rparr>"
  have r: "sqlite_int 0 \<and> sqlite_int 1 \<and> sqlite_int 2 \<and> sqlite_int 5"
    by (simp add: sqlite_int_def)
  have h: "\<forall>k \<le> length (books ?d). sqlite_int (\<Sum>b\<leftarrow>take k (books ?d). available b)
          \<and> sqlite_int (\<Sum>b\<leftarrow>take k (books ?d). copies b)"
  proof (intro allI impI)
    fix k assume "k \<le> length (books ?d)"
    then have "k = 0 \<or> k = 1 \<or> k = 2" by auto
    with r show "sqlite_int (\<Sum>b\<leftarrow>take k (books ?d). available b)
          \<and> sqlite_int (\<Sum>b\<leftarrow>take k (books ?d). copies b)"
      by (auto simp: numeral_2_eq_2)
  qed
  from summary_counts_and_sums [of ?d] h r show ?thesis
    by simp
qed

text \<open>
  A store in which \<^verbatim>\<open>summary()\<close> returns nothing: two calls of \<^verbatim>\<open>add_book\<close>, each with
  \<open>2\<^sup>6\<^sup>2\<close> copies, all available, give a table whose sums SQLite cannot hold, and
  \<^verbatim>\<open>summary()\<close> raises.
\<close>

theorem summary_overflow_counterexample:
  "add_book ''2024-01-01 10:00:00''
      \<lparr>title = ''Dune'', author = ''Herbert'', category = Some [], year = None,
       copies = 4611686018427387904, available = 4611686018427387904\<rparr> empty_db
    = Inr \<lparr>users = [], users_seq = 0,
           books = [\<lparr>title = ''Dune'', author = ''Herbert'', category = Some [], year = None,
                     copies = 4611686018427387904, available = 4611686018427387904,
                     book_id = 1, created_at = ''2024-01-01 10:00:00''\<rparr>],
           books_seq = 1\<rparr>
   \<and> add_book ''2024-01-01 10:00:01''
      \<lparr>title = ''Emma'', author = ''Austen'', category = Some [], year = None,
       copies = 4611686018427387904, available = 4611686018427387904\<rparr>
      \<lparr>users = [], users_seq = 0,
       books = [\<lparr>title = ''Dune'', author = ''Herbert'', category = Some [], year = None,
                 copies = 4611686018427387904, available = 4611686018427387904,
                 book_id = 1, created_at = ''2024-01-01 10:00:00''\<rparr>],
       books_seq = 1\<rparr>
    = Inr \<lparr>users = [], users_seq = 0,
           books = [\<lparr>title = ''Dune'', author = ''Herbert'', category = Some [], year = None,
                     copies = 4611686018427387904, available = 4611686018427387904,
                     book_id = 1, created_at = ''2024-01-01 10:00:00''\<rparr>,
                    \<lparr>title = ''Emma'', author = ''Austen'', category = Some [], year = None,
                     copies = 4611686018427387904, available = 4611686018427387904,
                     book_id = 2, created_at = ''2024-01-01 10:00:01''\<rparr>],
           books_seq = 2\<rparr>
   \<and> summary
      \<lparr>users = [], users_seq = 0,
       books = [\<lparr>title = ''Dune'', author = ''Herbert'', category = Some [], year = None,
                 copies = 4611686018427387904, available = 4611686018427387904,
                 book_id = 1, created_at = ''2024-01-01 10:00:00''\<rparr>,
                \<lparr>title = ''Emma'', author = ''Austen'', category = Some [], year = None,
                 copies = 4611686018427387904, available = 4611686018427387904,
                 book_id = 2, created_at = ''2024-01-01 10:00:01''\<rparr>],
       books_seq = 2\<rparr>
    = Inl OperationalError"
  by (simp add: add_book_def binds_def ex_big_binds empty_db_def next_rowid_def Let_def
      summary_def ex_overflow_sum)

text \<open>
  C4. \<^verbatim>\<open>update_book\<close> with an id that no row of \<^verbatim>\<open>books\<close> has. When the driver can bind
  the id and the payload's integers (all within the signed 64-bit range), the call
  returns without an error and the database after it is the database before it: the
  \<^verbatim>\<open>UPDATE\<close> matches no row. Otherwise the call raises \<^verbatim>\<open>OverflowError\<close>. The table is
  unchanged either way.
\<close>

theorem update_book_missing_id_noop:
  assumes "i \<notin> book_id ` set (books d)"
  shows "(binds p \<and> sqlite_int i \<longrightarrow> update_book i p d = Inr d)
     \<and> (\<not> (binds p \<and> sqlite_int i) \<longrightarrow> update_book i p d = Inl OverflowError)
     \<and> db_after d (update_book i p d) = d"
proof -
  have "map (\<lambda>b. if book_id b = i
                   then b\<lparr>title := title p, author := author p, category := category p,
                          year := year p, copies := copies p, available := available p\<rparr>
                   else b) (books d) = books d"
    by (rule map_idI) (use assms in auto)
  then show ?thesis by (simp add: update_book_def db_after_def)
qed

text \<open>An instance: the store holds row 1 and the call names row 7.\<close>

theorem update_book_missing_id_noop_witness:
  "(7::int) \<notin> book_id ` set (books
       \<lparr>users = [], users_seq = 0,
        books = [\<lparr>title = ''Dune'', author = ''Herbert'', category = None, year = Some 1965,
                  copies = 2, available = 2, book_id = 1,
                  created_at = ''2024-01-01 10:00:00''\<rparr>],
        books_seq = 1\<rparr>)
   \<and> binds \<lparr>title = ''Emma'', author = ''Austen'', category = Some ''novel'', year = None,
         copies = 5, available = 3\<rparr>
   \<and> sqlite_int 7
   \<and> update_book 7
        \<lparr>title = ''Emma'', author = ''Austen'', category = Some ''novel'', year = None,
         copies = 5, available = 3\<rparr>
        \<lparr>users = [], users_seq = 0,
         books = [\<lparr>title = ''Dune'', author = ''Herbert'', category = None, year = Some 1965,
                   copies = 2, available = 2, book_id = 1,
                   created_at = ''2024-01-01 10:00:00''\<rparr>],
         books_seq = 1\<rparr>
     = Inr \<lparr>users = [], users_seq = 0,
        books = [\<lparr>title = ''Dune'', author = ''Herbert'', category = None, year = Some 1965,
                  copies = 2, available = 2, book_id = 1,
                  created_at = ''2024-01-01 10:00:00''\<rparr>],
        books_seq = 1\<rparr>"
proof -
  have h: "(7::int) \<notin> book_id ` set (books
       \<lparr>users = [], users_seq = 0,
        books = [\<lparr>title = ''Dune'', author = ''Herbert'', category = None, year = Some 1965,
                  copies = 2, available = 2, book_id = 1,
                  created_at = ''2024-01-01 10:00:00''\<rparr>],
        books_seq = 1\<rparr>)"
    by simp
  have b: "binds \<lparr>title = ''Emma'', author = ''Austen'', category = Some ''novel'', year = None,
         copies = 5, available = 3\<rparr> \<and> sqlite_int 7"
    by (simp add: binds_def sqlite_int_def)
  show ?thesis
    using h b update_book_missing_id_noop [OF h, of
        "\<lparr>title = ''Emma'', author = ''Austen'', category = Some ''novel'', year = None,
         copies = 5, available = 3\<rparr>"]
    by simp
qed

text \<open>
  A call that raises although no row has the id: the payload's \<^verbatim>\<open>copies\<close> is \<open>2\<^sup>6\<^sup>3\<close>.
\<close>

theorem update_book_missing_id_counterexample:
  "(7::int) \<notin> book_id ` set (books
       \<lparr>users = [], users_seq = 0,
        books = [\<lparr>title = ''Dune'', author = ''Herbert'', category = None, year = Some 1965,
                  copies = 2, available = 2, book_id = 1,
                  created_at = ''2024-01-01 10:00:00''\<rparr>],
        books_seq = 1\<rparr>)
   \<and> update_book 7
        \<lparr>title = ''Emma'', author = ''Austen'', category = Some ''novel'', year = None,
         copies = 9223372036854775808, available = 3\<rparr>
        \<lparr>users = [], users_seq = 0,
         books = [\<lparr>title = ''Dune'', author = ''Herbert'', category = None, year = Some 1965,
                   copies = 2, available = 2, book_id = 1,
                   created_at = ''2024-01-01 10:00:00''\<rparr>],
         books_seq = 1\<rparr>
     = Inl OverflowError"
  by (simp add: update_book_def binds_def sqlite_int_def)

text \<open>
  C5. \<^verbatim>\<open>add_book(payload)\<close> for a payload whose year, copies and available the driver
  can bind (each within the signed 64-bit range, or no year): the call returns, and
  the list \<^verbatim>\<open>fetch_books("")\<close> then holds a row whose title, author, category, year,
  copies and available are the payload's. For any other payload the call raises
  \<^verbatim>\<open>OverflowError\<close>.
\<close>

theorem add_book_then_fetch_has_payload:
  "(binds p \<longrightarrow>
      (\<exists>d'. add_book now p d = Inr d'
         \<and> (\<exists>b \<in> set (fetch_books [] d').
               title b = title p \<and> author b = author p \<and> category b = category p \<and>
               year b = year p \<and> copies b = copies p \<and> available b = available p)))
   \<and> (\<not> binds p \<longrightarrow> add_book now p d = Inl OverflowError)"
  by (simp add: fetch_books_def set_order_by add_book_def Let_def)

text \<open>An instance: Dune is added to the empty store and fetched.\<close>

theorem add_book_then_fetch_has_payload_witness:
  "binds \<lparr>title = ''Dune'', author = ''Herbert'', category = Some [], year = Some 1965,
          copies = 2, available = 2\<rparr>
   \<and> add_book ''2024-01-01 10:00:00''
        \<lparr>title = ''Dune'', author = ''Herbert'', category = Some [], year = Some 1965,
         copies = 2, available = 2\<rparr> empty_db
      = Inr \<lparr>users = [], users_seq = 0,
             books = [\<lparr>title = ''Dune'', author = ''Herbert'', category = Some [],
                       year = Some 1965, copies = 2, available = 2, book_id = 1,
                       created_at = ''2024-01-01 10:00:00''\<rparr>],
             books_seq = 1\<rparr>
   \<and> fetch_books []
        \<lparr>users = [], users_seq = 0,
         books = [\<lparr>title = ''Dune'', author = ''Herbert'', category = Some [],
                   year = Some 1965, copies = 2, available = 2, book_id = 1,
                   created_at = ''2024-01-01 10:00:00''\<rparr>],
         books_seq = 1\<rparr>
      = [\<lparr>title = ''Dune'', author = ''Herbert'', category = Some [],
           year = Some 1965, copies = 2, available = 2, book_id = 1,
           created_at = ''2024-01-01 10:00:00''\<rparr>]"
proof -
  have b: "binds \<lparr>title = ''Dune'', author = ''Herbert'', category = Some [], year = Some 1965,
          copies = 2, available = 2\<rparr>"
    by (simp add: binds_def sqlite_int_def)
  from b add_book_then_fetch_has_payload [of
      "\<lparr>title = ''Dune'', author = ''Herbert'', category = Some [], year = Some 1965,
          copies = 2, available = 2\<rparr>" "''2024-01-01 10:00:00''" empty_db]
  show ?thesis
    by (simp add: add_book_def empty_db_def next_rowid_def Let_def fetch_books_def
        order_by_created_at_desc_def)
qed

lemma ex_strip_big: "py_strip ''9223372036854775808'' = ''9223372036854775808''"
  by (simp add: py_strip_def py_isspace_def)

lemma digit_vals:
  "digit_val CHR ''0'' = 0" "digit_val CHR ''1'' = 1" "digit_val CHR ''2'' = 2"
  "digit_val CHR ''3'' = 3" "digit_val CHR ''4'' = 4" "digit_val CHR ''5'' = 5"
  "digit_val CHR ''6'' = 6" "digit_val CHR ''7'' = 7" "digit_val CHR ''8'' = 8"
  "digit_val CHR ''9'' = 9"
  by code_simp+

lemma ex_int_big: "py_int ''9223372036854775808'' = Some 9223372036854775808"
  by (simp add: py_int_def ex_strip_big int_unsigned_def is_digit_def digit_vals)

lemma ex_strips:
  "py_strip ''Dune'' = ''Dune'' \<and> py_strip ''Herbert'' = ''Herbert'' \<and> py_strip [] = []
   \<and> py_strip ''1'' = ''1'' \<and> py_int ''1'' = Some 1"
  by code_simp

lemma ex_form_big:
  "form_payload \<lparr>Title = ''Dune'', Author = ''Herbert'', Category = [], Year = [],
                 Copies = ''9223372036854775808'', Available = ''1''\<rparr>
   = Inr \<lparr>title = ''Dune'', author = ''Herbert'', category = Some [], year = None,
          copies = 9223372036854775808, available = 1\<rparr>"
  by (simp add: form_payload_def Let_def ex_strips ex_strip_big ex_int_big)

text \<open>
  A payload the validation of the form returns and \<^verbatim>\<open>add_book\<close> does not store: the
  Copies field holds \<open>2\<^sup>6\<^sup>3\<close> in decimal digits. The call raises, and
  \<^verbatim>\<open>fetch_books("")\<close> on the store, which is still empty, returns no row.
\<close>

theorem add_book_overflow_counterexample:
  "form_payload \<lparr>Title = ''Dune'', Author = ''Herbert'', Category = [], Year = [],
                 Copies = ''9223372036854775808'', Available = ''1''\<rparr>
   = Inr \<lparr>title = ''Dune'', author = ''Herbert'', category = Some [], year = None,
          copies = 9223372036854775808, available = 1\<rparr>
   \<and> add_book ''2024-01-01 10:00:00''
        \<lparr>title = ''Dune'', author = ''Herbert'', category = Some [], year = None,
         copies = 9223372036854775808, available = 1\<rparr> empty_db
      = Inl OverflowError
   \<and> fetch_books []
        (db_after empty_db
           (add_book ''2024-01-01 10:00:00''
              \<lparr>title = ''Dune'', author = ''Herbert'', category = Some [], year = None,
               copies = 9223372036854775808, available = 1\<rparr> empty_db))
      = []"
  by (simp add: ex_form_big add_book_def binds_def sqlite_int_def db_after_def
      fetch_books_def empty_db_def order_by_created_at_desc_def)

text \<open>
  C6. \<^verbatim>\<open>update_book(id, payload)\<close> is idempotent: a second call with the same id and
  payload, made on the database the first call left, returns what the first call
  returned, the same database or the same exception (the database then being
  unchanged by both).
\<close>

theorem update_book_idempotent:
  "update_book i p (db_after d (update_book i p d)) = update_book i p d"
  by (simp add: update_book_def db_after_def comp_def cong: if_cong)

text \<open>
  C7. Whenever \<^verbatim>\<open>summary()\<close> returns, its total is the number of rows
  \<^verbatim>\<open>fetch_books("")\<close> returns.
\<close>

theorem summary_total_is_fetch_count:
  "summary d = Inr s \<Longrightarrow> total s = int (length (fetch_books [] d))"
  by (drule summary_Inr) (simp add: fetch_books_def length_order_by)

text \<open>An instance: the store that holds Dune.\<close>

theorem summary_total_is_fetch_count_witness:
  "summary
        \<lparr>users = [], users_seq = 0,
         books = [\<lparr>title = ''Dune'', author = ''Herbert'', category = None, year = None,
                   copies = 2, available = 2, book_id = 1,
                   created_at = ''2024-01-01 10:00:00''\<rparr>],
         books_seq = 1\<rparr>
      = Inr \<lparr>total = 1, sum_available = 2, sum_copies = 2, issued = 0\<rparr>
   \<and> length (fetch_books []
        \<lparr>users = [], users_seq = 0,
         books = [\<lparr>title = ''Dune'', author = ''Herbert'', category = None, year = None,
                   copies = 2, available = 2, book_id = 1,
                   created_at = ''2024-01-01 10:00:00''\<rparr>],
         books_seq = 1\<rparr>) = 1"
proof -
  have two: "sql_sum [2] = Inr (Some 2)"
    by (simp add: sql_sum_def sqlite_int_def)
  have s: "summary
        \<lparr>users = [], users_seq = 0,
         books = [\<lparr>title = ''Dune'', author = ''Herbert'', category = None, year = None,
                   copies = 2, available = 2, book_id = 1,
                   created_at = ''2024-01-01 10:00:00''\<rparr>],
         books_seq = 1\<rparr>
      = Inr \<lparr>total = 1, sum_available = 2, sum_copies = 2, issued = 0\<rparr>"
    by (simp add: summary_def two or_0_def)
  from s summary_total_is_fetch_count [OF s] show ?thesis by simp
qed

text \<open>
  A store in which \<^verbatim>\<open>fetch_books("")\<close> returns two rows and \<^verbatim>\<open>summary()\<close> raises, so
  that there is no total to compare: the two rows hold \<open>2\<^sup>6\<^sup>2\<close> copies each.
\<close>

theorem summary_total_overflow_counterexample:
  "summary
      \<lparr>users = [], users_seq = 0,
       books = [\<lparr>title = ''Dune'', author = ''Herbert'', category = Some [], year = None,
                 copies = 4611686018427387904, available = 4611686018427387904,
                 book_id = 1, created_at = ''2024-01-01 10:00:00''\<rparr>,
                \<lparr>title = ''Emma'', author = ''Austen'', category = Some [], year = None,
                 copies = 4611686018427387904, available = 4611686018427387904,
                 book_id = 2, created_at = ''2024-01-01 10:00:01''\<rparr>],
       books_seq = 2\<rparr>
    = Inl OperationalError
   \<and> length (fetch_books []
      \<lparr>users = [], users_seq = 0,
       books = [\<lparr>title = ''Dune'', author = ''Herbert'', category = Some [], year = None,
                 copies = 4611686018427387904, available = 4611686018427387904,
                 book_id = 1, created_at = ''2024-01-01 10:00:00''\<rparr>,
                \<lparr>title = ''Emma'', author = ''Austen'', category = Some [], year = None,
                 copies = 4611686018427387904, available = 4611686018427387904,
                 book_id = 2, created_at = ''2024-01-01 10:00:01''\<rparr>],
       books_seq = 2\<rparr>) = 2"
  by (simp add: summary_def ex_overflow_sum fetch_books_def length_order_by)

text \<open>
  C8. User names are unique in \<^verbatim>\<open>users\<close> (the column is declared \<^verbatim>\<open>UNIQUE\<close>). Then
  \<^verbatim>\<open>verify_user\<close> returns true exactly when a stored user has the given name and its
  stored hash is the digest of the given password; so it returns false when no user
  has that name, and false when the stored hash of that user differs from the digest.
\<close>

theorem verify_user_iff:
  assumes "distinct (map username (users d))"
  shows "verify_user H d name pw \<longleftrightarrow>
     (\<exists>u \<in> set (users d). username u = name \<and> password_hash u = hash_password H pw)"
proof (cases "filter (\<lambda>u. username u = name) (users d)")
  case Nil
  then have "\<forall>u \<in> set (users d). username u \<noteq> name"
    by (simp add: filter_empty_conv)
  with Nil show ?thesis by (auto simp: verify_user_def)
next
  case (Cons u us)
  have "distinct (map username (filter (\<lambda>u. username u = name) (users d)))"
    using assms by (rule distinct_map_filter)
  then have dist: "distinct (map username (u # us))"
    by (simp only: Cons)
  have "\<forall>v \<in> set (filter (\<lambda>u. username u = name) (users d)). username v = name"
    by simp
  then have all: "\<forall>v \<in> set (u # us). username v = name"
    by (simp only: Cons)
  have us: "us = []"
    by (cases us) (use all dist in auto)
  from Cons us have f: "filter (\<lambda>u. username u = name) (users d) = [u]" by simp
  then have "set (filter (\<lambda>u. username u = name) (users d)) = {u}" by simp
  then have iff: "\<And>v. v \<in> set (users d) \<and> username v = name \<longleftrightarrow> v = u" by auto
  have v: "verify_user H d name pw \<longleftrightarrow> password_hash u = hash_password H pw"
    using f by (simp add: verify_user_def)
  have "(\<exists>v \<in> set (users d). username v = name \<and> password_hash v = hash_password H pw)
      \<longleftrightarrow> password_hash u = hash_password H pw"
  proof
    assume "\<exists>v \<in> set (users d). username v = name \<and> password_hash v = hash_password H pw"
    then obtain v where "v \<in> set (users d) \<and> username v = name"
      and h: "password_hash v = hash_password H pw" by auto
    then have "v = u" by (simp only: iff)
    with h show "password_hash u = hash_password H pw" by simp
  next
    assume h: "password_hash u = hash_password H pw"
    have "u \<in> set (users d) \<and> username u = name" by (simp only: iff)
    with h show "\<exists>v \<in> set (users d). username v = name \<and> password_hash v = hash_password H pw"
      by blast
  qed
  with v show ?thesis by simp
qed

text \<open>
  The store of a first run: \<^verbatim>\<open>_ensure_db\<close> has inserted the account \<^verbatim>\<open>admin\<close>. Its
  user names are distinct, \<^verbatim>\<open>admin\<close> logs in with the password \<^verbatim>\<open>admin\<close>, and no
  other name logs in, whatever the digest function.
\<close>

theorem verify_user_iff_witness:
  "\<forall>H. distinct (map username (users (ensure_db H empty_db)))
     \<and> verify_user H (ensure_db H empty_db) ''admin'' ''admin''
     \<and> \<not> verify_user H (ensure_db H empty_db) ''guest'' ''admin''"
proof (intro allI)
  fix H :: "string \<Rightarrow> string"
  have d: "distinct (map username (users (ensure_db H empty_db)))"
    by (simp add: ensure_db_def user_exists_def empty_db_def Let_def)
  show "distinct (map username (users (ensure_db H empty_db)))
     \<and> verify_user H (ensure_db H empty_db) ''admin'' ''admin''
     \<and> \<not> verify_user H (ensure_db H empty_db) ''guest'' ''admin''"
    using d verify_user_iff [OF d, of H "''admin''" "''admin''"]
      verify_user_iff [OF d, of H "''guest''" "''admin''"]
    by (simp add: ensure_db_def user_exists_def empty_db_def Let_def)
qed

subsection \<open>The form and the buttons\<close>

lemma form_payload_Inr:
  assumes "form_payload f = Inr p"
  shows "py_strip (Title f) \<noteq> [] \<and> py_strip (Author f) \<noteq> []
     \<and> title p = py_strip (Title f) \<and> author p = py_strip (Author f)
     \<and> category p = Some (py_strip (Category f))
     \<and> year p = (if py_strip (Year f) \<noteq> [] then py_int (py_strip (Year f)) else None)
     \<and> (py_strip (Year f) \<noteq> [] \<longrightarrow> py_int (py_strip (Year f)) \<noteq> None)
     \<and> (\<exists>c v. py_int (if py_strip (Copies f) \<noteq> [] then py_strip (Copies f) else ''0'') = Some c
            \<and> py_int (if py_strip (Available f) \<noteq> [] then py_strip (Available f) else ''0'') = Some v
            \<and> copies p = max 0 c \<and> available p = max 0 (min v (max 0 c)))"
  using assms
  by (auto simp: form_payload_def Let_def split: if_splits option.splits)

lemma py_int_0: "py_int ''0'' = Some 0"
  by code_simp

lemma form_payload_Inl:
  assumes "form_payload f = Inl m"
  shows "m = ShowWarning ''Missing data'' ''Title and Author are required''
       \<or> m = ShowError ''Invalid number'' ''Year, Copies, Available must be numbers''"
  using assms
  by (auto simp: form_payload_def Let_def split: if_splits option.splits)

lemma form_payload_malformed:
  assumes "(py_strip (Year f) \<noteq> [] \<and> py_int (py_strip (Year f)) = None)
         \<or> (py_strip (Copies f) \<noteq> [] \<and> py_int (py_strip (Copies f)) = None)
         \<or> (py_strip (Available f) \<noteq> [] \<and> py_int (py_strip (Available f)) = None)"
  shows "\<exists>m. form_payload f = Inl m"
proof (cases "form_payload f")
  case (Inl m) then show ?thesis by simp
next
  case (Inr p)
  from form_payload_Inr [OF Inr] assms show ?thesis by (auto split: if_splits)
qed

lemma form_payload_produced:
  assumes "py_strip (Title f) \<noteq> []" "py_strip (Author f) \<noteq> []"
    "py_strip (Year f) = [] \<or> py_int (py_strip (Year f)) \<noteq> None"
    "py_strip (Copies f) = [] \<or> py_int (py_strip (Copies f)) \<noteq> None"
    "py_strip (Available f) = [] \<or> py_int (py_strip (Available f)) \<noteq> None"
  shows "\<exists>p. form_payload f = Inr p"
  using assms
  by (auto simp: form_payload_def Let_def py_int_0 split: if_splits option.splits)

lemma db_show_dialog [simp]: "db (show_dialog m a) = db a"
  by (simp add: show_dialog_def)

lemma refresh_table_Inr:
  "refresh_table a = Inr a' \<Longrightarrow> db a' = db a \<and> dialogs a' = dialogs a"
  by (auto simp: refresh_table_def update_stats_def split: sum.splits)

lemma refresh_table_Inl:
  "refresh_table a = Inl (e, a') \<Longrightarrow> db a' = db a \<and> dialogs a' = dialogs a"
  by (auto simp: refresh_table_def update_stats_def split: sum.splits)

lemma db_callback:
  "db (callback r) = (case r of Inl (e, a) \<Rightarrow> db a | Inr a \<Rightarrow> db a)"
  by (simp add: callback_def split: sum.splits prod.splits)

lemma dialogs_callback:
  "dialogs (callback r) = (case r of Inl (e, a) \<Rightarrow> dialogs a | Inr a \<Rightarrow> dialogs a)"
  by (simp add: callback_def split: sum.splits prod.splits)

lemma db_clear_form [simp]: "db (clear_form a) = db a"
  by (simp add: clear_form_def)

lemma dialogs_clear_form [simp]: "dialogs (clear_form a) = dialogs a"
  by (simp add: clear_form_def)

lemma dialogs_show_dialog [simp]: "dialogs (show_dialog m a) = dialogs a @ [m]"
  by (simp add: show_dialog_def)

lemma db_app_add_book:
  "db (app_add_book now a) =
     (case form_payload (form_vars a) of
        Inl m \<Rightarrow> db a
      | Inr p \<Rightarrow> db_after (db a) (add_book now p (db a)))"
  by (auto simp: app_add_book_def db_callback db_after_def
      split: sum.splits prod.splits dest: refresh_table_Inr refresh_table_Inl)

lemma db_update_selected:
  "db (update_selected a) =
     (case selected_id a of None \<Rightarrow> db a
      | Some i \<Rightarrow> (case form_payload (form_vars a) of Inl m \<Rightarrow> db a
                    | Inr p \<Rightarrow> db_after (db a) (update_book i p (db a))))"
  by (auto simp: update_selected_def db_callback db_after_def
      split: sum.splits prod.splits option.splits dest: refresh_table_Inr refresh_table_Inl)

lemma db_delete_selected:
  "db (delete_selected yes a) =
     (case selected_id a of None \<Rightarrow> db a
      | Some i \<Rightarrow> if yes then db_after (db a) (delete_book i (db a)) else db a)"
  by (auto simp: delete_selected_def Let_def db_callback db_after_def
      split: sum.splits prod.splits option.splits dest: refresh_table_Inr refresh_table_Inl)

lemma ui_mutation_rows:
  assumes "b \<in> set (books (db (ui_mutation m a)))"
  shows "b \<in> set (books (db a)) \<or> (0 \<le> available b \<and> available b \<le> copies b)"
proof (cases m)
  case (Add now)
  show ?thesis
  proof (cases "form_payload (form_vars a)")
    case (Inl e)
    with Add assms show ?thesis by (simp add: db_app_add_book)
  next
    case (Inr p)
    from form_payload_Inr [OF Inr] have "0 \<le> available p \<and> available p \<le> copies p"
      by auto
    with Add Inr assms show ?thesis
      by (auto simp: db_app_add_book add_book_def db_after_def Let_def split: if_splits)
  qed
next
  case Update
  show ?thesis
  proof (cases "selected_id a")
    case None
    with Update assms show ?thesis by (simp add: db_update_selected)
  next
    case (Some i)
    show ?thesis
    proof (cases "form_payload (form_vars a)")
      case (Inl e)
      with Update Some assms show ?thesis by (simp add: db_update_selected)
    next
      case (Inr p)
      from form_payload_Inr [OF Inr] have "0 \<le> available p \<and> available p \<le> copies p"
        by auto
      with Update Some Inr assms show ?thesis
        by (auto simp: db_update_selected update_book_def db_after_def split: if_splits)
    qed
  qed
next
  case (Delete yes)
  with assms show ?thesis
    by (auto simp: db_delete_selected delete_book_def db_after_def
        split: option.splits if_splits)
qed

text \<open>
  C2. The three buttons that change the store keep \<^verbatim>\<open>0 \<le> available \<le> copies\<close>. After
  Add, Update or Delete, in any state of the window, every row of \<^verbatim>\<open>books\<close> is a row
  that was there before or has \<^verbatim>\<open>0 \<le> available \<le> copies\<close>; so when all rows were within
  these bounds before, all are after. The payload the validation returns has year,
  copies and available as the integers \<^verbatim>\<open>int\<close> reads from the fields (no year for a
  blank field), copies raised to 0 and available clamped between 0 and copies. When
  Year, Copies or Available holds text that is not blank and not an integer, the
  validation returns a message instead of a payload (the invalid-number error, or the
  missing-data warning when title or author is blank), Add and Update show a message
  and leave the database unchanged. (A payload the driver cannot bind leaves the
  database unchanged as well: the store raises before the statement runs.)
\<close>

theorem ui_mutation_available_within_copies:
  "(\<forall>b \<in> set (books (db (ui_mutation m a))).
        b \<in> set (books (db a)) \<or> (0 \<le> available b \<and> available b \<le> copies b))
   \<and> ((\<forall>b \<in> set (books (db a)). 0 \<le> available b \<and> available b \<le> copies b) \<longrightarrow>
        (\<forall>b \<in> set (books (db (ui_mutation m a))). 0 \<le> available b \<and> available b \<le> copies b))
   \<and> (\<forall>p. form_payload (form_vars a) = Inr p \<longrightarrow>
          year p = (if py_strip (Year (form_vars a)) \<noteq> []
                    then py_int (py_strip (Year (form_vars a))) else None)
          \<and> (\<exists>c v. py_int (if py_strip (Copies (form_vars a)) \<noteq> []
                            then py_strip (Copies (form_vars a)) else ''0'') = Some c
                 \<and> py_int (if py_strip (Available (form_vars a)) \<noteq> []
                            then py_strip (Available (form_vars a)) else ''0'') = Some v
                 \<and> copies p = max 0 c \<and> available p = max 0 (min v (copies p)))
          \<and> 0 \<le> available p \<and> available p \<le> copies p)
   \<and> ((py_strip (Year (form_vars a)) \<noteq> [] \<and> py_int (py_strip (Year (form_vars a))) = None)
        \<or> (py_strip (Copies (form_vars a)) \<noteq> [] \<and> py_int (py_strip (Copies (form_vars a))) = None)
        \<or> (py_strip (Available (form_vars a)) \<noteq> []
             \<and> py_int (py_strip (Available (form_vars a))) = None) \<longrightarrow>
        (\<exists>e. form_payload (form_vars a) = Inl e
            \<and> (e = ShowWarning ''Missing data'' ''Title and Author are required''
                \<or> e = ShowError ''Invalid number'' ''Year, Copies, Available must be numbers'')
            \<and> (\<forall>now. db (app_add_book now a) = db a
                      \<and> dialogs (app_add_book now a) = dialogs a @ [e]))
        \<and> db (update_selected a) = db a
        \<and> (\<exists>e. dialogs (update_selected a) = dialogs a @ [e]))"
proof (intro conjI)
  show rows: "\<forall>b \<in> set (books (db (ui_mutation m a))).
        b \<in> set (books (db a)) \<or> (0 \<le> available b \<and> available b \<le> copies b)"
    using ui_mutation_rows by blast
  show "(\<forall>b \<in> set (books (db a)). 0 \<le> available b \<and> available b \<le> copies b) \<longrightarrow>
        (\<forall>b \<in> set (books (db (ui_mutation m a))). 0 \<le> available b \<and> available b \<le> copies b)"
    using rows by blast
  show "\<forall>p. form_payload (form_vars a) = Inr p \<longrightarrow>
          year p = (if py_strip (Year (form_vars a)) \<noteq> []
                    then py_int (py_strip (Year (form_vars a))) else None)
          \<and> (\<exists>c v. py_int (if py_strip (Copies (form_vars a)) \<noteq> []
                            then py_strip (Copies (form_vars a)) else ''0'') = Some c
                 \<and> py_int (if py_strip (Available (form_vars a)) \<noteq> []
                            then py_strip (Available (form_vars a)) else ''0'') = Some v
                 \<and> copies p = max 0 c \<and> available p = max 0 (min v (copies p)))
          \<and> 0 \<le> available p \<and> available p \<le> copies p"
  proof (intro allI impI)
    fix p assume "form_payload (form_vars a) = Inr p"
    from form_payload_Inr [OF this]
    show "year p = (if py_strip (Year (form_vars a)) \<noteq> []
                    then py_int (py_strip (Year (form_vars a))) else None)
          \<and> (\<exists>c v. py_int (if py_strip (Copies (form_vars a)) \<noteq> []
                            then py_strip (Copies (form_vars a)) else ''0'') = Some c
                 \<and> py_int (if py_strip (Available (form_vars a)) \<noteq> []
                            then py_strip (Available (form_vars a)) else ''0'') = Some v
                 \<and> copies p = max 0 c \<and> available p = max 0 (min v (copies p)))
          \<and> 0 \<le> available p \<and> available p \<le> copies p"
      by auto
  qed
  show "(py_strip (Year (form_vars a)) \<noteq> [] \<and> py_int (py_strip (Year (form_vars a))) = None)
        \<or> (py_strip (Copies (form_vars a)) \<noteq> [] \<and> py_int (py_strip (Copies (form_vars a))) = None)
        \<or> (py_strip (Available (form_vars a)) \<noteq> []
             \<and> py_int (py_strip (Available (form_vars a))) = None) \<longrightarrow>
        (\<exists>e. form_payload (form_vars a) = Inl e
            \<and> (e = ShowWarning ''Missing data'' ''Title and Author are required''
                \<or> e = ShowError ''Invalid number'' ''Year, Copies, Available must be numbers'')
            \<and> (\<forall>now. db (app_add_book now a) = db a
                      \<and> dialogs (app_add_book now a) = dialogs a @ [e]))
        \<and> db (update_selected a) = db a
        \<and> (\<exists>e. dialogs (update_selected a) = dialogs a @ [e])"
  proof
    assume "(py_strip (Year (form_vars a)) \<noteq> [] \<and> py_int (py_strip (Year (form_vars a))) = None)
        \<or> (py_strip (Copies (form_vars a)) \<noteq> [] \<and> py_int (py_strip (Copies (form_vars a))) = None)
        \<or> (py_strip (Available (form_vars a)) \<noteq> []
             \<and> py_int (py_strip (Available (form_vars a))) = None)"
    from form_payload_malformed [OF this] obtain e where e: "form_payload (form_vars a) = Inl e"
      by blast
    have add: "db (app_add_book now a) = db a \<and> dialogs (app_add_book now a) = dialogs a @ [e]"
      for now
      using e by (simp add: app_add_book_def callback_def)
    have upd: "db (update_selected a) = db a"
      using e by (simp add: db_update_selected split: option.splits)
    have dlg: "\<exists>e. dialogs (update_selected a) = dialogs a @ [e]"
      using e by (simp add: update_selected_def callback_def split: option.splits)
    from e form_payload_Inl [OF e] add upd dlg
    show "(\<exists>e. form_payload (form_vars a) = Inl e
            \<and> (e = ShowWarning ''Missing data'' ''Title and Author are required''
                \<or> e = ShowError ''Invalid number'' ''Year, Copies, Available must be numbers'')
            \<and> (\<forall>now. db (app_add_book now a) = db a
                      \<and> dialogs (app_add_book now a) = dialogs a @ [e]))
        \<and> db (update_selected a) = db a
        \<and> (\<exists>e. dialogs (update_selected a) = dialogs a @ [e])"
      by blast
  qed
qed

lemma ex_form_valid:
  "form_payload \<lparr>Title = ''Emma'', Author = ''Austen'', Category = ''novel'', Year = ''1815'',
                 Copies = ''3'', Available = ''7''\<rparr>
   = Inr \<lparr>title = ''Emma'', author = ''Austen'', category = Some ''novel'', year = Some 1815,
          copies = 3, available = 3\<rparr>"
  by code_simp

lemma ex_form_invalid:
  "py_strip ''x7'' = ''x7'' \<and> py_int ''x7'' = None
   \<and> form_payload \<lparr>Title = ''Emma'', Author = ''Austen'', Category = ''novel'', Year = ''1815'',
                 Copies = ''3'', Available = ''x7''\<rparr>
   = Inl (ShowError ''Invalid number'' ''Year, Copies, Available must be numbers'')"
  by code_simp

text \<open>
  An instance: a store holding Dune, a form for Emma with 3 copies and 7 available
  (the payload says 3 available), and the same form with \<^verbatim>\<open>x7\<close> typed as Available.
\<close>

theorem ui_mutation_available_within_copies_witness:
  "let d = \<lparr>users = [], users_seq = 0,
            books = [\<lparr>title = ''Dune'', author = ''Herbert'', category = None,
                      year = Some 1965, copies = 2, available = 2, book_id = 1,
                      created_at = ''2024-01-01 10:00:00''\<rparr>],
            books_seq = 1\<rparr>;
       a = \<lparr>db = d,
            script_file = \<lparr>parent_dir = ''/app/'', file_name = ''Simple_app.py''\<rparr>,
            form_vars = \<lparr>Title = ''Emma'', Author = ''Austen'', Category = ''novel'',
                         Year = ''1815'', Copies = ''3'', Available = ''7''\<rparr>,
            selected_id = None, search_var = [], tree = [], stat_total = [],
            stat_available = [], stat_issued = [], files = Map.empty, dialogs = [],
            uncaught = []\<rparr>;
       a' = a\<lparr>form_vars := \<lparr>Title = ''Emma'', Author = ''Austen'', Category = ''novel'',
                             Year = ''1815'', Copies = ''3'', Available = ''x7''\<rparr>\<rparr>
   in list_all (\<lambda>b. 0 \<le> available b \<and> available b \<le> copies b) (books (db a))
    \<and> form_payload (form_vars a)
        = Inr \<lparr>title = ''Emma'', author = ''Austen'', category = Some ''novel'',
               year = Some 1815, copies = 3, available = 3\<rparr>
    \<and> list_all (\<lambda>b. 0 \<le> available b \<and> available b \<le> copies b)
         (books (db (ui_mutation (Add ''2024-02-02 09:00:00'') a)))
    \<and> map book_id (books (db (ui_mutation (Add ''2024-02-02 09:00:00'') a))) = [1, 2]
    \<and> py_strip (Available (form_vars a')) \<noteq> []
    \<and> py_int (py_strip (Available (form_vars a'))) = None
    \<and> db (app_add_book ''2024-02-02 09:00:00'' a') = d
    \<and> db (update_selected a') = d
    \<and> dialogs (app_add_book ''2024-02-02 09:00:00'' a')
        = [ShowError ''Invalid number'' ''Year, Copies, Available must be numbers'']"
proof -
  let ?d = "\<lparr>users = [], users_seq = 0,
            books = [\<lparr>title = ''Dune'', author = ''Herbert'', category = None,
                      year = Some 1965, copies = 2, available = 2, book_id = 1,
                      created_at = ''2024-01-01 10:00:00''\<rparr>],
            books_seq = 1\<rparr>"
  let ?a = "\<lparr>db = ?d,
            script_file = \<lparr>parent_dir = ''/app/'', file_name = ''Simple_app.py''\<rparr>,
            form_vars = \<lparr>Title = ''Emma'', Author = ''Austen'', Category = ''novel'',
                         Year = ''1815'', Copies = ''3'', Available = ''7''\<rparr>,
            selected_id = None, search_var = [], tree = [], stat_total = [],
            stat_available = [], stat_issued = [], files = Map.empty, dialogs = [],
            uncaught = []\<rparr>"
  let ?a' = "?a\<lparr>form_vars := \<lparr>Title = ''Emma'', Author = ''Austen'', Category = ''novel'',
                             Year = ''1815'', Copies = ''3'', Available = ''x7''\<rparr>\<rparr>"
  have inv: "\<forall>b \<in> set (books (db ?a)). 0 \<le> available b \<and> available b \<le> copies b"
    by simp
  have bad: "py_strip (Available (form_vars ?a')) \<noteq> []
      \<and> py_int (py_strip (Available (form_vars ?a'))) = None"
    using ex_form_invalid by simp
  have p: "form_payload (form_vars ?a)
        = Inr \<lparr>title = ''Emma'', author = ''Austen'', category = Some ''novel'',
               year = Some 1815, copies = 3, available = 3\<rparr>"
    using ex_form_valid by simp
  have e: "form_payload (form_vars ?a')
        = Inl (ShowError ''Invalid number'' ''Year, Copies, Available must be numbers'')"
    using ex_form_invalid by simp
  have ids: "map book_id (books (db (ui_mutation (Add ''2024-02-02 09:00:00'') ?a))) = [1, 2]"
    by (simp add: db_app_add_book ex_form_valid add_book_def binds_def sqlite_int_def
        db_after_def next_rowid_def Let_def)
  from ui_mutation_available_within_copies [of "Add ''2024-02-02 09:00:00''" ?a] inv
  have after: "\<forall>b \<in> set (books (db (ui_mutation (Add ''2024-02-02 09:00:00'') ?a))).
      0 \<le> available b \<and> available b \<le> copies b"
    by blast
  from ui_mutation_available_within_copies [of Update ?a'] bad e
  have rej: "db (app_add_book ''2024-02-02 09:00:00'' ?a') = db ?a'
      \<and> dialogs (app_add_book ''2024-02-02 09:00:00'' ?a')
          = dialogs ?a' @ [ShowError ''Invalid number'' ''Year, Copies, Available must be numbers'']
      \<and> db (update_selected ?a') = db ?a'"
    by (metis sum.inject(1))
  show ?thesis
    unfolding Let_def list_all_iff
    using inv p after ids bad rej by simp
qed

text \<open>
  C10. A blank Copies field reads as \<^verbatim>\<open>"0"\<close>: every payload the validation returns for
  a form with blank Copies has copies 0 and available 0, whatever the Available field
  holds. With title and author present, such a form yields a payload exactly when Year
  and Available are each blank or an integer; with a blank Year and the form's default
  Available \<^verbatim>\<open>"1"\<close> the payload has copies 0 and available 0.
\<close>

theorem blank_copies_payload:
  assumes "py_strip (Copies f) = []"
  shows "(\<forall>p. form_payload f = Inr p \<longrightarrow> copies p = 0 \<and> available p = 0)
    \<and> (py_strip (Title f) \<noteq> [] \<and> py_strip (Author f) \<noteq> [] \<longrightarrow>
         ((\<exists>p. form_payload f = Inr p) \<longleftrightarrow>
            (py_strip (Year f) = [] \<or> py_int (py_strip (Year f)) \<noteq> None)
          \<and> (py_strip (Available f) = [] \<or> py_int (py_strip (Available f)) \<noteq> None)))
    \<and> (py_strip (Title f) \<noteq> [] \<and> py_strip (Author f) \<noteq> [] \<and> py_strip (Year f) = []
         \<and> Available f = ''1'' \<longrightarrow>
         form_payload f = Inr \<lparr>title = py_strip (Title f), author = py_strip (Author f),
                               category = Some (py_strip (Category f)), year = None,
                               copies = 0, available = 0\<rparr>)"
proof (intro conjI allI impI)
  fix p assume "form_payload f = Inr p"
  from form_payload_Inr [OF this] assms show "copies p = 0" "available p = 0"
    by (auto simp: py_int_0)
next
  assume ta: "py_strip (Title f) \<noteq> [] \<and> py_strip (Author f) \<noteq> []"
  show "(\<exists>p. form_payload f = Inr p) \<longleftrightarrow>
            (py_strip (Year f) = [] \<or> py_int (py_strip (Year f)) \<noteq> None)
          \<and> (py_strip (Available f) = [] \<or> py_int (py_strip (Available f)) \<noteq> None)"
  proof
    assume "\<exists>p. form_payload f = Inr p"
    then obtain p where "form_payload f = Inr p" ..
    from form_payload_Inr [OF this]
    show "(py_strip (Year f) = [] \<or> py_int (py_strip (Year f)) \<noteq> None)
          \<and> (py_strip (Available f) = [] \<or> py_int (py_strip (Available f)) \<noteq> None)"
      by (auto split: if_splits)
  next
    assume "(py_strip (Year f) = [] \<or> py_int (py_strip (Year f)) \<noteq> None)
          \<and> (py_strip (Available f) = [] \<or> py_int (py_strip (Available f)) \<noteq> None)"
    with ta assms show "\<exists>p. form_payload f = Inr p"
      by (intro form_payload_produced) auto
  qed
next
  assume h: "py_strip (Title f) \<noteq> [] \<and> py_strip (Author f) \<noteq> [] \<and> py_strip (Year f) = []
         \<and> Available f = ''1''"
  have s1: "py_strip ''1'' = ''1''" by code_simp
  have i1: "py_int ''1'' = Some 1" by code_simp
  from h assms show "form_payload f = Inr \<lparr>title = py_strip (Title f), author = py_strip (Author f),
                               category = Some (py_strip (Category f)), year = None,
                               copies = 0, available = 0\<rparr>"
    by (simp add: form_payload_def Let_def s1 i1 py_int_0)
qed

text \<open>An instance: the Copies field holds two spaces, Available the default.\<close>

theorem blank_copies_payload_witness:
  "py_strip (Copies \<lparr>Title = ''Dune'', Author = '' Herbert '', Category = '''', Year = '''',
                      Copies = ''  '', Available = ''1''\<rparr>) = []
   \<and> form_payload \<lparr>Title = ''Dune'', Author = '' Herbert '', Category = '''', Year = '''',
                    Copies = ''  '', Available = ''1''\<rparr>
     = Inr \<lparr>title = ''Dune'', author = ''Herbert'', category = Some '''', year = None,
            copies = 0, available = 0\<rparr>"
proof -
  let ?f = "\<lparr>Title = ''Dune'', Author = '' Herbert '', Category = '''', Year = '''',
                      Copies = ''  '', Available = ''1''\<rparr>"
  have b: "py_strip (Copies ?f) = []" by code_simp
  have t: "py_strip (Title ?f) = ''Dune''" by code_simp
  have a: "py_strip (Author ?f) = ''Herbert''" by code_simp
  have c: "py_strip (Category ?f) = ''''" by code_simp
  have y: "py_strip (Year ?f) = []" by code_simp
  from blank_copies_payload [OF b] t a c y b show ?thesis
    by simp
qed

subsection \<open>Export\<close>

lemma suffix_of_library_db: "suffix_of ''library.db'' = ''.db''"
  by code_simp

lemma csv_path_eq:
  "with_suffix (DB_PATH script) ''.csv'' = script\<lparr>file_name := ''library.csv''\<rparr>"
  by (simp add: with_suffix_def DB_PATH_def with_name_def suffix_of_library_db)

lemma writerow_csv_header:
  "writerow csv_header =
     ''ID,Title,Author,Category,Year,Copies,Available,Created'' @ [CHR 0x0D, CHR 0x0A]"
  by code_simp

lemma files_show_dialog [simp]: "files (show_dialog m a) = files a"
  by (simp add: show_dialog_def)

text \<open>
  C9. Export CSV, in any state of the window. The rows are those \<^verbatim>\<open>fetch_books\<close>
  returns for the trimmed text of the search box. When there is at least one, the
  file \<^verbatim>\<open>library.csv\<close> beside the script (the database is \<^verbatim>\<open>library.db\<close> in the same
  directory) is written with the header line
  \<^verbatim>\<open>ID,Title,Author,Category,Year,Copies,Available,Created\<close> followed by one record per
  row, in the order of the rows, and a message names the file; no other file changes.
  When there is none, no file is written and the message box \<^verbatim>\<open>No rows to export\<close> is
  shown. The database is untouched either way.
\<close>

theorem export_csv_writes_filtered_rows:
  "(fetch_books (py_strip (search_var a)) (db a) \<noteq> [] \<longrightarrow>
      files (export_csv a) =
        (files a)((script_file a)\<lparr>file_name := ''library.csv''\<rparr> \<mapsto>
           ''ID,Title,Author,Category,Year,Copies,Available,Created'' @ [CHR 0x0D, CHR 0x0A]
           @ concat (map (\<lambda>b. writerow (row_tuple b))
                         (fetch_books (py_strip (search_var a)) (db a))))
      \<and> dialogs (export_csv a) =
          dialogs a @ [ShowInfo ''Exported''
             (''Data exported to '' @ parent_dir (script_file a) @ ''library.csv'')])
   \<and> (fetch_books (py_strip (search_var a)) (db a) = [] \<longrightarrow>
      files (export_csv a) = files a
      \<and> dialogs (export_csv a) = dialogs a @ [ShowInfo ''No data'' ''No rows to export''])
   \<and> DB_PATH (script_file a) = (script_file a)\<lparr>file_name := ''library.db''\<rparr>
   \<and> db (export_csv a) = db a"
proof -
  have files_eq: "files (export_csv a) =
      (if fetch_books (py_strip (search_var a)) (db a) = [] then files a
       else (files a)((script_file a)\<lparr>file_name := ''library.csv''\<rparr> \<mapsto>
           ''ID,Title,Author,Category,Year,Copies,Available,Created'' @ [CHR 0x0D, CHR 0x0A]
           @ concat (map (\<lambda>b. writerow (row_tuple b))
                         (fetch_books (py_strip (search_var a)) (db a)))))"
    by (simp add: export_csv_def Let_def csv_path_eq writerow_csv_header writerows_def comp_def)
  have dialogs_eq: "dialogs (export_csv a) =
      (if fetch_books (py_strip (search_var a)) (db a) = []
       then dialogs a @ [ShowInfo ''No data'' ''No rows to export'']
       else dialogs a @ [ShowInfo ''Exported''
             (''Data exported to '' @ parent_dir (script_file a) @ ''library.csv'')])"
    by (simp add: export_csv_def Let_def csv_path_eq str_path_def show_dialog_def)
  have path_eq: "DB_PATH (script_file a) = (script_file a)\<lparr>file_name := ''library.db''\<rparr>"
    by (simp add: DB_PATH_def with_name_def)
  have db_eq: "db (export_csv a) = db a"
    by (simp add: export_csv_def Let_def show_dialog_def)
  show ?thesis
    by (simp only: files_eq dialogs_eq path_eq db_eq) simp
qed

lemma ex_fetch_dun:
  "fetch_books (py_strip '' dun '')
     \<lparr>users = [], users_seq = 0,
      books = [\<lparr>title = ''Dune'', author = ''Herbert'', category = None,
                year = Some 1965, copies = 2, available = 2, book_id = 1,
                created_at = ''2024-01-01 10:00:00''\<rparr>],
      books_seq = 1\<rparr>
   = [\<lparr>title = ''Dune'', author = ''Herbert'', category = None,
        year = Some 1965, copies = 2, available = 2, book_id = 1,
        created_at = ''2024-01-01 10:00:00''\<rparr>]"
  by code_simp

lemma ex_fetch_zzz:
  "fetch_books (py_strip ''zzz'')
     \<lparr>users = [], users_seq = 0,
      books = [\<lparr>title = ''Dune'', author = ''Herbert'', category = None,
                year = Some 1965, copies = 2, available = 2, book_id = 1,
                created_at = ''2024-01-01 10:00:00''\<rparr>],
      books_seq = 1\<rparr>
   = []"
  by code_simp

lemma ex_writerow_dune:
  "writerow (row_tuple \<lparr>title = ''Dune'', author = ''Herbert'', category = None,
        year = Some 1965, copies = 2, available = 2, book_id = 1,
        created_at = ''2024-01-01 10:00:00''\<rparr>)
   = ''1,Dune,Herbert,,1965,2,2,2024-01-01 10:00:00'' @ [CHR 0x0D, CHR 0x0A]"
  by code_simp

text \<open>
  An instance: the store holds Dune; with \<^verbatim>\<open>dun\<close> in the search box the file has the
  header and the record of Dune, with \<^verbatim>\<open>zzz\<close> no file is written.
\<close>

theorem export_csv_writes_filtered_rows_witness:
  "let d = \<lparr>users = [], users_seq = 0,
            books = [\<lparr>title = ''Dune'', author = ''Herbert'', category = None,
                      year = Some 1965, copies = 2, available = 2, book_id = 1,
                      created_at = ''2024-01-01 10:00:00''\<rparr>],
            books_seq = 1\<rparr>;
       a = \<lparr>db = d,
            script_file = \<lparr>parent_dir = ''/app/'', file_name = ''Simple_app.py''\<rparr>,
            form_vars = \<lparr>Title = [], Author = [], Category = [], Year = [], Copies = [],
                         Available = ''1''\<rparr>,
            selected_id = None, search_var = '' dun '', tree = [], stat_total = [],
            stat_available = [], stat_issued = [], files = Map.empty, dialogs = [],
            uncaught = []\<rparr>;
       a' = a\<lparr>search_var := ''zzz''\<rparr>
   in fetch_books (py_strip (search_var a)) (db a) \<noteq> []
    \<and> files (export_csv a) \<lparr>parent_dir = ''/app/'', file_name = ''library.csv''\<rparr>
        = Some (''ID,Title,Author,Category,Year,Copies,Available,Created'' @ [CHR 0x0D, CHR 0x0A]
                @ ''1,Dune,Herbert,,1965,2,2,2024-01-01 10:00:00'' @ [CHR 0x0D, CHR 0x0A])
    \<and> dialogs (export_csv a) = [ShowInfo ''Exported'' ''Data exported to /app/library.csv'']
    \<and> fetch_books (py_strip (search_var a')) (db a') = []
    \<and> files (export_csv a') \<lparr>parent_dir = ''/app/'', file_name = ''library.csv''\<rparr> = None
    \<and> dialogs (export_csv a') = [ShowInfo ''No data'' ''No rows to export'']"
proof -
  let ?d = "\<lparr>users = [], users_seq = 0,
            books = [\<lparr>title = ''Dune'', author = ''Herbert'', category = None,
                      year = Some 1965, copies = 2, available = 2, book_id = 1,
                      created_at = ''2024-01-01 10:00:00''\<rparr>],
            books_seq = 1\<rparr>"
  let ?a = "\<lparr>db = ?d,
            script_file = \<lparr>parent_dir = ''/app/'', file_name = ''Simple_app.py''\<rparr>,
            form_vars = \<lparr>Title = [], Author = [], Category = [], Year = [], Copies = [],
                         Available = ''1''\<rparr>,
            selected_id = None, search_var = '' dun '', tree = [], stat_total = [],
            stat_available = [], stat_issued = [], files = Map.empty, dialogs = [],
            uncaught = []\<rparr>"
  let ?a' = "?a\<lparr>search_var := ''zzz''\<rparr>"
  from export_csv_writes_filtered_rows [of ?a] export_csv_writes_filtered_rows [of ?a']
  show ?thesis
    unfolding Let_def
    by (simp add: ex_fetch_dun ex_fetch_zzz ex_writerow_dune)
qed

subsection \<open>Search\<close>

lemma ascii_lower_not_upper: "ascii_lower c \<notin> set ''ABCDEFGHIJKLMNOPQRSTUVWXYZ''"
  by (simp add: ascii_lower_def)

lemma ascii_lower_id: "c \<notin> set ''ABCDEFGHIJKLMNOPQRSTUVWXYZ'' \<Longrightarrow> ascii_lower c = c"
  by (simp add: ascii_lower_def)

lemma ascii_lower_idem [simp]: "ascii_lower (ascii_lower c) = ascii_lower c"
  by (rule ascii_lower_id) (rule ascii_lower_not_upper)

lemma ascii_lower_percent [simp]: "ascii_lower c = CHR ''%'' \<longleftrightarrow> c = CHR ''%''"
  by (auto simp: ascii_lower_def)

lemma ascii_lower_underscore [simp]: "ascii_lower c = CHR ''_'' \<longleftrightarrow> c = CHR ''_''"
  by (auto simp: ascii_lower_def)

lemma like_match_percent_all [simp]: "like_match ''%'' t"
  by (induction t) simp_all

lemma like_match_percent:
  "like_match (CHR ''%'' # ps) t \<longleftrightarrow> (\<exists>pre post. t = pre @ post \<and> like_match ps post)"
proof (induction t)
  case Nil
  then show ?case by simp
next
  case (Cons c cs)
  show ?case
  proof
    assume "like_match (CHR ''%'' # ps) (c # cs)"
    then have "like_match ps (c # cs) \<or> like_match (CHR ''%'' # ps) cs" by simp
    then show "\<exists>pre post. c # cs = pre @ post \<and> like_match ps post"
    proof
      assume "like_match ps (c # cs)"
      then have "c # cs = [] @ (c # cs) \<and> like_match ps (c # cs)" by simp
      then show ?thesis by blast
    next
      assume "like_match (CHR ''%'' # ps) cs"
      with Cons obtain pre post where "cs = pre @ post" "like_match ps post" by blast
      then have "c # cs = (c # pre) @ post \<and> like_match ps post" by simp
      then show ?thesis by blast
    qed
  next
    assume "\<exists>pre post. c # cs = pre @ post \<and> like_match ps post"
    then obtain pre post where e: "c # cs = pre @ post" and m: "like_match ps post" by blast
    show "like_match (CHR ''%'' # ps) (c # cs)"
    proof (cases pre)
      case Nil
      with e have "post = c # cs" by simp
      with m have "like_match ps (c # cs)" by simp
      then show ?thesis by simp
    next
      case (Cons x xs)
      with e have "cs = xs @ post" by simp
      with m Cons.IH have "like_match (CHR ''%'' # ps) cs" by blast
      then show ?thesis by simp
    qed
  qed
qed

lemma like_match_plain_prefix:
  assumes "CHR ''%'' \<notin> set q" "CHR ''_'' \<notin> set q"
  shows "like_match (q @ ''%'') t \<longleftrightarrow>
     (\<exists>m post. t = m @ post \<and> map ascii_lower m = map ascii_lower q)"
  using assms
proof (induction q arbitrary: t)
  case Nil
  then show ?case by simp
next
  case (Cons p ps)
  then have p: "p \<noteq> CHR ''%''" "p \<noteq> CHR ''_''" and ps: "CHR ''%'' \<notin> set ps" "CHR ''_'' \<notin> set ps"
    by auto
  show ?case
  proof (cases t)
    case Nil
    with p show ?thesis by simp
  next
    case (Cons c cs)
    have "like_match ((p # ps) @ ''%'') (c # cs) \<longleftrightarrow>
        ascii_lower p = ascii_lower c \<and> like_match (ps @ ''%'') cs"
      using p by simp
    also have "\<dots> \<longleftrightarrow> ascii_lower p = ascii_lower c \<and>
        (\<exists>m post. cs = m @ post \<and> map ascii_lower m = map ascii_lower ps)"
      using Cons.IH [OF ps] by simp
    also have "\<dots> \<longleftrightarrow>
        (\<exists>m post. c # cs = m @ post \<and> map ascii_lower m = map ascii_lower (p # ps))"
    proof
      assume "ascii_lower p = ascii_lower c \<and>
        (\<exists>m post. cs = m @ post \<and> map ascii_lower m = map ascii_lower ps)"
      then obtain m post where "ascii_lower p = ascii_lower c" "cs = m @ post"
        "map ascii_lower m = map ascii_lower ps" by blast
      then have "c # cs = (c # m) @ post \<and> map ascii_lower (c # m) = map ascii_lower (p # ps)"
        by simp
      then show "\<exists>m post. c # cs = m @ post \<and> map ascii_lower m = map ascii_lower (p # ps)"
        by blast
    next
      assume "\<exists>m post. c # cs = m @ post \<and> map ascii_lower m = map ascii_lower (p # ps)"
      then obtain m post where e: "c # cs = m @ post"
        and l: "map ascii_lower m = map ascii_lower (p # ps)" by blast
      from l obtain x xs where m: "m = x # xs" by (cases m) auto
      with e l have "ascii_lower p = ascii_lower c" "cs = xs @ post"
        "map ascii_lower xs = map ascii_lower ps" by auto
      then show "ascii_lower p = ascii_lower c \<and>
        (\<exists>m post. cs = m @ post \<and> map ascii_lower m = map ascii_lower ps)" by blast
    qed
    finally show ?thesis using Cons by simp
  qed
qed

lemma like_match_contains:
  assumes "CHR ''%'' \<notin> set q" "CHR ''_'' \<notin> set q"
  shows "like_match (''%'' @ q @ ''%'') t \<longleftrightarrow>
     (\<exists>pre m post. t = pre @ m @ post \<and> map ascii_lower m = map ascii_lower q)"
proof -
  have "like_match (''%'' @ q @ ''%'') t \<longleftrightarrow>
      (\<exists>pre rest. t = pre @ rest \<and> like_match (q @ ''%'') rest)"
    using like_match_percent [of "q @ ''%''" t] by simp
  also have "\<dots> \<longleftrightarrow> (\<exists>pre rest. t = pre @ rest \<and>
      (\<exists>m post. rest = m @ post \<and> map ascii_lower m = map ascii_lower q))"
    by (simp only: like_match_plain_prefix [OF assms])
  also have "\<dots> \<longleftrightarrow> (\<exists>pre m post. t = pre @ m @ post \<and> map ascii_lower m = map ascii_lower q)"
    by blast
  finally show ?thesis .
qed

lemma search_where_true:
  "sql_true (search_where like b) \<longleftrightarrow>
     like_match like (map ascii_lower (title b))
   \<or> like_match like (map ascii_lower (author b))
   \<or> (\<exists>c. category b = Some c \<and> like_match like (map ascii_lower c))"
proof (cases "category b")
  case None
  then show ?thesis
    by (cases "like_match like (map ascii_lower (title b))";
        cases "like_match like (map ascii_lower (author b))")
       (simp_all add: search_where_def sql_true_def sql_like_def sql_lower_def)
next
  case (Some c)
  then show ?thesis
    by (cases "like_match like (map ascii_lower (title b))";
        cases "like_match like (map ascii_lower (author b))";
        cases "like_match like (map ascii_lower c)")
       (simp_all add: search_where_def sql_true_def sql_like_def sql_lower_def)
qed

lemma lowered_segment:
  "(\<exists>pre m post. map ascii_lower t = pre @ m @ post \<and> map ascii_lower m = map ascii_lower s)
   \<longleftrightarrow> (\<exists>pre m post. t = pre @ m @ post \<and> map ascii_lower m = map ascii_lower s)"
proof
  assume "\<exists>pre m post. map ascii_lower t = pre @ m @ post \<and> map ascii_lower m = map ascii_lower s"
  then obtain pre m post where e: "map ascii_lower t = pre @ m @ post"
    and l: "map ascii_lower m = map ascii_lower s" by blast
  from e obtain pre' r where t1: "t = pre' @ r" and r: "m @ post = map ascii_lower r"
    unfolding map_eq_append_conv by blast
  from r [symmetric] obtain m' post' where t2: "r = m' @ post'" and m': "m = map ascii_lower m'"
    unfolding map_eq_append_conv by blast
  have "map ascii_lower (map ascii_lower m') = map ascii_lower m'"
    by simp
  with m' l have "map ascii_lower m' = map ascii_lower s"
    by simp
  with t1 t2 show "\<exists>pre m post. t = pre @ m @ post \<and> map ascii_lower m = map ascii_lower s"
    by blast
next
  assume "\<exists>pre m post. t = pre @ m @ post \<and> map ascii_lower m = map ascii_lower s"
  then obtain pre m post where e: "t = pre @ m @ post"
    and l: "map ascii_lower m = map ascii_lower s" by blast
  have "map ascii_lower t = map ascii_lower pre @ map ascii_lower m @ map ascii_lower post"
    using e by simp
  moreover have "map ascii_lower (map ascii_lower m) = map ascii_lower s"
    using l by simp
  ultimately show "\<exists>pre m post. map ascii_lower t = pre @ m @ post
      \<and> map ascii_lower m = map ascii_lower s"
    by blast
qed

lemma like_search_term:
  assumes "CHR ''%'' \<notin> set s" "CHR ''_'' \<notin> set s"
  shows "like_match (''%'' @ py_lower s @ ''%'') (map ascii_lower t) \<longleftrightarrow>
     (\<exists>pre m post. t = pre @ m @ post \<and> map ascii_lower m = map ascii_lower s)"
proof -
  have w1: "CHR ''%'' \<notin> set (py_lower s)"
  proof
    assume "CHR ''%'' \<in> set (py_lower s)"
    then have "CHR ''%'' \<in> ascii_lower ` set s"
      by (simp add: py_lower_def)
    then obtain x where x: "x \<in> set s" and e: "CHR ''%'' = ascii_lower x"
      by (rule imageE)
    from e have l: "ascii_lower x = CHR ''%''"
      by (rule sym)
    from l have "x = CHR ''%''" by (simp only: ascii_lower_percent)
    with x assms(1) show False by simp
  qed
  have w2: "CHR ''_'' \<notin> set (py_lower s)"
  proof
    assume "CHR ''_'' \<in> set (py_lower s)"
    then have "CHR ''_'' \<in> ascii_lower ` set s"
      by (simp add: py_lower_def)
    then obtain x where x: "x \<in> set s" and e: "CHR ''_'' = ascii_lower x"
      by (rule imageE)
    from e have l: "ascii_lower x = CHR ''_''"
      by (rule sym)
    from l have "x = CHR ''_''" by (simp only: ascii_lower_underscore)
    with x assms(2) show False by simp
  qed
  note w = w1 w2
  have ll: "map ascii_lower (py_lower s) = map ascii_lower s"
    by (simp add: py_lower_def)
  show ?thesis
    by (simp only: like_match_contains [OF w] ll lowered_segment)
qed

text \<open>
  The search on a term without the characters \<^verbatim>\<open>%\<close> and \<^verbatim>\<open>_\<close>: a row is returned
  exactly when its title, its author or its category (when it has one) contains the
  term, ASCII letters compared without regard to case. Every result is ordered by
  \<^verbatim>\<open>created_at\<close>, later rows first, and the empty term returns every row.
\<close>

theorem fetch_books_plain_term:
  assumes "s \<noteq> []" "CHR ''%'' \<notin> set s" "CHR ''_'' \<notin> set s"
  shows "set (fetch_books s d) =
      {b \<in> set (books d).
         (\<exists>pre m post. title b = pre @ m @ post \<and> map ascii_lower m = map ascii_lower s)
       \<or> (\<exists>pre m post. author b = pre @ m @ post \<and> map ascii_lower m = map ascii_lower s)
       \<or> (\<exists>c. category b = Some c
              \<and> (\<exists>pre m post. c = pre @ m @ post \<and> map ascii_lower m = map ascii_lower s))}
    \<and> sorted_wrt (\<lambda>a b. created_at b \<le> created_at a) (fetch_books s d)
    \<and> set (fetch_books [] d) = set (books d)
    \<and> sorted_wrt (\<lambda>a b. created_at b \<le> created_at a) (fetch_books [] d)"
proof -
  have "set (fetch_books s d) =
      {b \<in> set (books d). sql_true (search_where (''%'' @ py_lower s @ ''%'') b)}"
    using assms(1) by (simp add: fetch_books_def Let_def set_order_by)
  also have "\<dots> = {b \<in> set (books d).
         (\<exists>pre m post. title b = pre @ m @ post \<and> map ascii_lower m = map ascii_lower s)
       \<or> (\<exists>pre m post. author b = pre @ m @ post \<and> map ascii_lower m = map ascii_lower s)
       \<or> (\<exists>c. category b = Some c
              \<and> (\<exists>pre m post. c = pre @ m @ post \<and> map ascii_lower m = map ascii_lower s))}"
    by (simp only: search_where_true like_search_term [OF assms(2,3)])
  finally have 1: "set (fetch_books s d) = {b \<in> set (books d).
         (\<exists>pre m post. title b = pre @ m @ post \<and> map ascii_lower m = map ascii_lower s)
       \<or> (\<exists>pre m post. author b = pre @ m @ post \<and> map ascii_lower m = map ascii_lower s)
       \<or> (\<exists>c. category b = Some c
              \<and> (\<exists>pre m post. c = pre @ m @ post \<and> map ascii_lower m = map ascii_lower s))}" .
  have 2: "sorted_wrt (\<lambda>a b. created_at b \<le> created_at a) (fetch_books s d)" for s
    by (simp add: fetch_books_def Let_def sorted_order_by)
  have 3: "set (fetch_books [] d) = set (books d)"
    by (simp add: fetch_books_def set_order_by)
  show ?thesis
    by (intro conjI) (rule 1, rule 2, rule 3, rule 2)
qed

text \<open>An instance: the term \<^verbatim>\<open>dun\<close> finds Dune.\<close>

theorem fetch_books_plain_term_witness:
  "''dun'' \<noteq> [] \<and> CHR ''%'' \<notin> set ''dun'' \<and> CHR ''_'' \<notin> set ''dun''
   \<and> ''Dune'' = [] @ ''Dun'' @ ''e'' \<and> map ascii_lower ''Dun'' = map ascii_lower ''dun''
   \<and> \<lparr>title = ''Dune'', author = ''Herbert'', category = None, year = None,
        copies = 2, available = 2, book_id = 1, created_at = ''2024-01-01 10:00:00''\<rparr>
      \<in> set (fetch_books ''dun''
            \<lparr>users = [], users_seq = 0,
             books = [\<lparr>title = ''Dune'', author = ''Herbert'', category = None, year = None,
                       copies = 2, available = 2, book_id = 1,
                       created_at = ''2024-01-01 10:00:00''\<rparr>],
             books_seq = 1\<rparr>)"
proof -
  have h: "''dun'' \<noteq> []" "CHR ''%'' \<notin> set ''dun''" "CHR ''_'' \<notin> set ''dun''"
    by simp_all
  have seg: "''Dune'' = [] @ ''Dun'' @ ''e'' \<and> map ascii_lower ''Dun'' = map ascii_lower ''dun''"
    by code_simp
  then have "\<exists>pre m post. ''Dune'' = pre @ m @ post \<and> map ascii_lower m = map ascii_lower ''dun''"
    by blast
  with fetch_books_plain_term [OF h, of
      "\<lparr>users = [], users_seq = 0,
        books = [\<lparr>title = ''Dune'', author = ''Herbert'', category = None, year = None,
                  copies = 2, available = 2, book_id = 1,
                  created_at = ''2024-01-01 10:00:00''\<rparr>],
        books_seq = 1\<rparr>"]
  have "\<lparr>title = ''Dune'', author = ''Herbert'', category = None, year = None,
        copies = 2, available = 2, book_id = 1, created_at = ''2024-01-01 10:00:00''\<rparr>
      \<in> set (fetch_books ''dun''
            \<lparr>users = [], users_seq = 0,
             books = [\<lparr>title = ''Dune'', author = ''Herbert'', category = None, year = None,
                       copies = 2, available = 2, book_id = 1,
                       created_at = ''2024-01-01 10:00:00''\<rparr>],
             books_seq = 1\<rparr>)"
    by simp
  with h seg show ?thesis by simp
qed

lemma fetch_books_lower:
  "s \<noteq> [] \<Longrightarrow> t \<noteq> [] \<Longrightarrow> py_lower s = py_lower t \<Longrightarrow> fetch_books s d = fetch_books t d"
  by (simp add: fetch_books_def)

lemma ex_add_dune:
  "add_book now \<lparr>title = ''Dune'', author = ''Herbert'', category = c, year = None,
                  copies = 2, available = 2\<rparr> empty_db
   = Inr \<lparr>users = [], users_seq = 0,
          books = [\<lparr>title = ''Dune'', author = ''Herbert'', category = c, year = None,
                    copies = 2, available = 2, book_id = 1, created_at = now\<rparr>],
          books_seq = 1\<rparr>"
  by (simp add: add_book_def binds_def sqlite_int_def empty_db_def next_rowid_def Let_def)

lemma ex_dun:
  "fetch_books ''dun''
     \<lparr>users = [], users_seq = 0,
      books = [\<lparr>title = ''Dune'', author = ''Herbert'', category = c, year = None,
                copies = 2, available = 2, book_id = 1, created_at = now\<rparr>],
      books_seq = 1\<rparr>
   = [\<lparr>title = ''Dune'', author = ''Herbert'', category = c, year = None,
        copies = 2, available = 2, book_id = 1, created_at = now\<rparr>]"
  by (simp add: fetch_books_def Let_def
      order_by_created_at_desc_def search_where_def sql_like_def sql_lower_def sql_true_def
      py_lower_def ascii_lower_def)

lemma ex_underscore:
  "fetch_books ''_''
     \<lparr>users = [], users_seq = 0,
      books = [\<lparr>title = ''Dune'', author = ''Herbert'', category = Some [], year = None,
                copies = 2, available = 2, book_id = 1,
                created_at = ''2024-01-01 10:00:00''\<rparr>],
      books_seq = 1\<rparr>
   = [\<lparr>title = ''Dune'', author = ''Herbert'', category = Some [], year = None,
        copies = 2, available = 2, book_id = 1, created_at = ''2024-01-01 10:00:00''\<rparr>]"
  by code_simp

lemma ex_percent:
  "fetch_books ''%''
     \<lparr>users = [], users_seq = 0,
      books = [\<lparr>title = ''Dune'', author = ''Herbert'', category = Some [], year = None,
                copies = 2, available = 2, book_id = 1,
                created_at = ''2024-01-01 10:00:00''\<rparr>],
      books_seq = 1\<rparr>
   = [\<lparr>title = ''Dune'', author = ''Herbert'', category = Some [], year = None,
        copies = 2, available = 2, book_id = 1, created_at = ''2024-01-01 10:00:00''\<rparr>]"
  by code_simp

text \<open>
  C1, at the search terms \<^verbatim>\<open>_\<close> and \<^verbatim>\<open>%\<close>. The term is pasted into the \<^verbatim>\<open>LIKE\<close> pattern
  as it is, so these two characters act as wildcards: on a store whose only row is
  Dune by Herbert with the empty category, both terms return the row, although
  neither character occurs in its title, author or category. The claim's reading of
  the search as a plain substring test gives the empty list for both.
\<close>

theorem fetch_books_wildcard_term:
  "fetch_books ''_''
     \<lparr>users = [], users_seq = 0,
      books = [\<lparr>title = ''Dune'', author = ''Herbert'', category = Some [], year = None,
                copies = 2, available = 2, book_id = 1,
                created_at = ''2024-01-01 10:00:00''\<rparr>],
      books_seq = 1\<rparr>
   = [\<lparr>title = ''Dune'', author = ''Herbert'', category = Some [], year = None,
        copies = 2, available = 2, book_id = 1, created_at = ''2024-01-01 10:00:00''\<rparr>]
   \<and> fetch_books ''%''
     \<lparr>users = [], users_seq = 0,
      books = [\<lparr>title = ''Dune'', author = ''Herbert'', category = Some [], year = None,
                copies = 2, available = 2, book_id = 1,
                created_at = ''2024-01-01 10:00:00''\<rparr>],
      books_seq = 1\<rparr>
   = [\<lparr>title = ''Dune'', author = ''Herbert'', category = Some [], year = None,
        copies = 2, available = 2, book_id = 1, created_at = ''2024-01-01 10:00:00''\<rparr>]
   \<and> CHR ''_'' \<notin> set ''Dune'' \<and> CHR ''_'' \<notin> set ''Herbert''
   \<and> CHR ''%'' \<notin> set ''Dune'' \<and> CHR ''%'' \<notin> set ''Herbert''"
  by (simp add: ex_underscore ex_percent)

lemma ex_zzz:
  "fetch_books ''zzz''
     \<lparr>users = [], users_seq = 0,
      books = [\<lparr>title = ''Dune'', author = ''Herbert'', category = None, year = None,
                copies = 2, available = 2, book_id = 1, created_at = now\<rparr>],
      books_seq = 1\<rparr> = []"
  by (simp add: fetch_books_def Let_def
      order_by_created_at_desc_def search_where_def sql_like_def sql_lower_def sql_true_def
      py_lower_def ascii_lower_def)

text \<open>
  The scenario of the search: after adding Dune by Herbert to the empty store, every
  spelling of \<^verbatim>\<open>dun\<close> in upper or lower case returns its row, and \<^verbatim>\<open>zzz\<close> returns
  nothing.
\<close>

theorem fetch_books_dune_scenario:
  "(py_lower s = ''dun'' \<longrightarrow>
      fetch_books s
        (db_after empty_db
           (add_book now \<lparr>title = ''Dune'', author = ''Herbert'', category = c, year = None,
                          copies = 2, available = 2\<rparr> empty_db))
      = [\<lparr>title = ''Dune'', author = ''Herbert'', category = c, year = None,
           copies = 2, available = 2, book_id = 1, created_at = now\<rparr>])
   \<and> fetch_books ''zzz''
        (db_after empty_db
           (add_book now \<lparr>title = ''Dune'', author = ''Herbert'', category = None, year = None,
                          copies = 2, available = 2\<rparr> empty_db)) = []"
proof (intro conjI impI)
  assume l: "py_lower s = ''dun''"
  then have "s \<noteq> []" by (auto simp: py_lower_def)
  moreover have "py_lower ''dun'' = ''dun''" by code_simp
  ultimately have "fetch_books s
        \<lparr>users = [], users_seq = 0,
         books = [\<lparr>title = ''Dune'', author = ''Herbert'', category = c, year = None,
                   copies = 2, available = 2, book_id = 1, created_at = now\<rparr>],
         books_seq = 1\<rparr>
      = fetch_books ''dun''
        \<lparr>users = [], users_seq = 0,
         books = [\<lparr>title = ''Dune'', author = ''Herbert'', category = c, year = None,
                   copies = 2, available = 2, book_id = 1, created_at = now\<rparr>],
         books_seq = 1\<rparr>"
    using l by (intro fetch_books_lower) simp_all
  then show "fetch_books s
        (db_after empty_db
           (add_book now \<lparr>title = ''Dune'', author = ''Herbert'', category = c, year = None,
                          copies = 2, available = 2\<rparr> empty_db))
      = [\<lparr>title = ''Dune'', author = ''Herbert'', category = c, year = None,
           copies = 2, available = 2, book_id = 1, created_at = now\<rparr>]"
    by (simp only: ex_add_dune db_after_def sum.case ex_dun)
next
  show "fetch_books ''zzz''
        (db_after empty_db
           (add_book now \<lparr>title = ''Dune'', author = ''Herbert'', category = None, year = None,
                          copies = 2, available = 2\<rparr> empty_db)) = []"
    by (simp only: ex_add_dune db_after_def sum.case ex_zzz)
qed

text \<open>An instance: the spelling \<^verbatim>\<open>DuN\<close>.\<close>

theorem fetch_books_dune_scenario_witness:
  "py_lower ''DuN'' = ''dun''
   \<and> fetch_books ''DuN''
        (db_after empty_db
           (add_book ''2024-01-01 10:00:00''
              \<lparr>title = ''Dune'', author = ''Herbert'', category = None, year = None,
               copies = 2, available = 2\<rparr> empty_db))
      = [\<lparr>title = ''Dune'', author = ''Herbert'', category = None, year = None,
           copies = 2, available = 2, book_id = 1, created_at = ''2024-01-01 10:00:00''\<rparr>]"
proof -
  have l: "py_lower ''DuN'' = ''dun''" by code_simp
  from fetch_books_dune_scenario [of "''DuN''" "''2024-01-01 10:00:00''" None] l
  show ?thesis by simp
qed

text \<open>
  After a \<^verbatim>\<open>delete_book(id)\<close> that returns, no row of \<^verbatim>\<open>fetch_books("")\<close> has that
  id.
\<close>

theorem delete_book_then_fetch:
  "delete_book i d = Inr d' \<Longrightarrow> \<forall>b \<in> set (fetch_books [] d'). book_id b \<noteq> i"
  by (auto simp: fetch_books_def set_order_by delete_book_def split: if_splits)

theorem delete_book_then_fetch_witness:
  "delete_book 1
        \<lparr>users = [], users_seq = 0,
         books = [\<lparr>title = ''Dune'', author = ''Herbert'', category = None, year = None,
                   copies = 2, available = 2, book_id = 1,
                   created_at = ''2024-01-01 10:00:00''\<rparr>,
                  \<lparr>title = ''Emma'', author = ''Austen'', category = None, year = None,
                   copies = 1, available = 1, book_id = 2,
                   created_at = ''2024-01-02 10:00:00''\<rparr>],
         books_seq = 2\<rparr>
    = Inr \<lparr>users = [], users_seq = 0,
         books = [\<lparr>title = ''Emma'', author = ''Austen'', category = None, year = None,
                   copies = 1, available = 1, book_id = 2,
                   created_at = ''2024-01-02 10:00:00''\<rparr>],
         books_seq = 2\<rparr>
   \<and> map book_id (fetch_books []
        \<lparr>users = [], users_seq = 0,
         books = [\<lparr>title = ''Emma'', author = ''Austen'', category = None, year = None,
                   copies = 1, available = 1, book_id = 2,
                   created_at = ''2024-01-02 10:00:00''\<rparr>],
         books_seq = 2\<rparr>) = [2]"
proof -
  have d: "delete_book 1
        \<lparr>users = [], users_seq = 0,
         books = [\<lparr>title = ''Dune'', author = ''Herbert'', category = None, year = None,
                   copies = 2, available = 2, book_id = 1,
                   created_at = ''2024-01-01 10:00:00''\<rparr>,
                  \<lparr>title = ''Emma'', author = ''Austen'', category = None, year = None,
                   copies = 1, available = 1, book_id = 2,
                   created_at = ''2024-01-02 10:00:00''\<rparr>],
         books_seq = 2\<rparr>
    = Inr \<lparr>users = [], users_seq = 0,
         books = [\<lparr>title = ''Emma'', author = ''Austen'', category = None, year = None,
                   copies = 1, available = 1, book_id = 2,
                   created_at = ''2024-01-02 10:00:00''\<rparr>],
         books_seq = 2\<rparr>"
    by (simp add: delete_book_def sqlite_int_def)
  from d delete_book_then_fetch [OF d] show ?thesis
    by (simp add: fetch_books_def order_by_created_at_desc_def)
qed

end
